theory Spec2Isabelle
  imports Main "HOL-Library.Word" "HOL-Library.Sublist"
begin

section \<open>Evidence validator (src/commands/shareban.ts)\<close>

text \<open>
  A Node \<open>Buffer\<close> is a sequence of octets. \<open>buffer[index]\<close> past the end is
  \<open>undefined\<close> in JavaScript and never equal to a byte; \<open>checkMagicBytes\<close> guards
  every read with the length test, which the model keeps.
\<close>

type_synonym byte = "8 word"
type_synonym buffer = "byte list"

definition ALLOWED_MAGIC_BYTES :: "(string \<times> byte list list) list" where
  "ALLOWED_MAGIC_BYTES =
    [(''png'', [[0x89, 0x50, 0x4e, 0x47]]),
     (''jpg'', [[0xff, 0xd8, 0xff, 0xe0],
               [0xff, 0xd8, 0xff, 0xe1],
               [0xff, 0xd8, 0xff, 0xe2],
               [0xff, 0xd8, 0xff, 0xdb]]),
     (''gif'', [[0x47, 0x49, 0x46, 0x38, 0x37, 0x61],
               [0x47, 0x49, 0x46, 0x38, 0x39, 0x61]]),
     (''webp'', [[0x52, 0x49, 0x46, 0x46]]),
     (''bmp'', [[0x42, 0x4d]]),
     (''pdf'', [[0x25, 0x50, 0x44, 0x46]]),
     (''mp4'', [[0x00, 0x00, 0x00, 0x18, 0x66, 0x74, 0x79, 0x70]]),
     (''webm'', [[0x1a, 0x45, 0xdf, 0xa3]]),
     (''txt'', [[0xef, 0xbb, 0xbf]])]"

definition BLOCKED_MAGIC_BYTES :: "byte list list" where
  "BLOCKED_MAGIC_BYTES =
    [[0x4d, 0x5a],
     [0x7f, 0x45, 0x4c, 0x46],
     [0xca, 0xfe, 0xba, 0xbe],
     [0xcf, 0xfa, 0xed, 0xfe],
     [0x50, 0x4b, 0x03, 0x04]]"

text \<open>\<open>sig.every((byte, index) => buffer[index] === byte)\<close>, index by index.\<close>

fun sig_every :: "buffer \<Rightarrow> byte list \<Rightarrow> nat \<Rightarrow> bool" where
  "sig_every buf [] index = True"
| "sig_every buf (b # rest) index =
     (index < length buf \<and> buf ! index = b \<and> sig_every buf rest (Suc index))"

definition checkMagicBytes :: "buffer \<Rightarrow> byte list list \<Rightarrow> bool" where
  "checkMagicBytes buf signatures =
     list_ex (\<lambda>sig. if length buf < length sig then False else sig_every buf sig 0) signatures"

definition isBlockedFile :: "buffer \<Rightarrow> bool" where
  "isBlockedFile buf = list_ex (\<lambda>sig. checkMagicBytes buf [sig]) BLOCKED_MAGIC_BYTES"

definition isPlainTextByte :: "byte \<Rightarrow> bool" where
  "isPlainTextByte b = ((0x20 \<le> b \<and> b \<le> 0x7e) \<or> b = 0x0a \<or> b = 0x0d \<or> b = 0x09)"

definition isAllowedFile :: "buffer \<Rightarrow> bool" where
  "isAllowedFile buf =
     (if isBlockedFile buf then False
      else if list_ex (\<lambda>(ext, signatures). checkMagicBytes buf signatures) ALLOWED_MAGIC_BYTES
        then True
      else if list_all isPlainTextByte (take 100 buf) then True
      else False)"

section \<open>Record store (src/database/main.ts and src/database/models)\<close>

text \<open>
  Every table of the SQLite schema is a list of rows in insertion order. Timestamps are
  the strings of \<open>new Date().toISOString()\<close>, which have a fixed width, so that their
  TEXT order in SQL and their order as \<open>Date\<close> values both agree with the order of the
  instants; the model keeps the instant, in milliseconds. The JSON columns hold the
  value that \<open>stringifyJson\<close> wrote and \<open>parseJson\<close> reads back. The values of
  \<open>newId()\<close> and of the clock are inputs of the operations that ask for them.
\<close>

type_synonym timestamp = nat

datatype error = RecordNotFoundError | SqliteConstraintError | PlainError string

datatype OnServerRemovePolicy = Retain | Lift | Archive

record CollectionRow =
  c_id :: string
  c_mainGuildId :: string
  c_name :: string
  c_description :: "string option"
  c_createdAt :: timestamp
  c_createdBy :: string
  c_loggingEnabledAtCollectionLevel :: bool
  c_onServerRemove :: OnServerRemovePolicy
  c_dmOnBan :: bool
  c_analyticsEnabled :: bool
  c_maxLinkedServers :: int

record ServerRow =
  s_id :: string
  s_guildId :: string
  s_collectionId :: string
  s_addedAt :: timestamp
  s_addedBy :: string
  s_loggingChannelId :: "string option"
  s_syncOnJoin :: bool
  s_enabled :: bool

datatype EvidenceType = Image | Link | Text
datatype EvidenceStorage = S3 | Gridfs | External

record EvidenceEntry =
  e_id :: string
  e_type :: EvidenceType
  e_storage :: EvidenceStorage
  e_ref :: string
  e_notes :: "string option"
  e_sizeBytes :: nat

datatype AppliedServerResult = Success | Failed | Skipped | No_perm | Already_banned

record AppliedServerRunEntry =
  r_guildId :: string
  r_runId :: string
  r_appliedAt :: "timestamp option"
  r_result :: AppliedServerResult
  r_error :: "string option"
  r_retryCount :: nat

record BanMeta =
  lastRunId :: "string option"
  runs :: "nat option"

record BanRow =
  b_id :: string
  b_collectionId :: string
  b_userId :: string
  b_moderatorId :: string
  b_moderatorGuildId :: string
  b_timestamp :: timestamp
  b_expiresAt :: "timestamp option"
  b_reason :: "string option"
  b_userFacingReason :: "string option"
  b_privatiseReason :: bool
  b_moderatorsInvolved :: "string list"
  b_evidence :: "EvidenceEntry list"
  b_active :: bool
  b_appliedServersRecent :: "AppliedServerRunEntry list"
  b_appliedServersHistory :: "AppliedServerRunEntry list"
  b_meta :: BanMeta

datatype ModeratorType = UserMod | RoleMod

record ModeratorRow =
  m_id :: string
  m_collectionId :: string
  m_type :: ModeratorType
  m_value :: string
  m_grantedBy :: string
  m_grantedAt :: timestamp

datatype json = JNull | JBool bool | JNum int | JStr string
  | JArr "json list" | JObj "(string \<times> json) list"

record AuditLogRow =
  a_id :: string
  a_collectionId :: string
  a_action :: string
  a_performedBy :: string
  a_performedAt :: timestamp
  a_details :: json

datatype InviteStatus = Pending | Accepted | Expired | Cancelled

record InviteRow =
  i_id :: string
  i_collectionId :: string
  i_targetGuildId :: string
  i_invitedBy :: string
  i_invitedAt :: timestamp
  i_expiresAt :: timestamp
  i_status :: InviteStatus
  i_respondedAt :: "timestamp option"

record db =
  collections :: "CollectionRow list"
  servers :: "ServerRow list"
  bans :: "BanRow list"
  moderators :: "ModeratorRow list"
  auditLogs :: "AuditLogRow list"
  invites :: "InviteRow list"

text \<open>
  \<open>ORDER BY col DESC\<close>: rows by descending key, and rows with equal keys in the order
  of the table, as the SQLite sorter returns them. The stable ascending sort of the
  reversed table, reversed again, is that order.
\<close>

definition order_by_desc :: "('r \<Rightarrow> timestamp) \<Rightarrow> 'r list \<Rightarrow> 'r list" where
  "order_by_desc key rows = rev (sort_key key (rev rows))"

text \<open>\<open>db.prepare(SELECT ...).get(...)\<close>: the first matching row, or \<open>undefined\<close>.\<close>

definition select_get :: "('r \<Rightarrow> bool) \<Rightarrow> 'r list \<Rightarrow> error + 'r" where
  "select_get p rows = (case find p rows of None \<Rightarrow> Inl RecordNotFoundError | Some r \<Rightarrow> Inr r)"

definition collection_exists :: "db \<Rightarrow> string \<Rightarrow> bool" where
  "collection_exists d cid = list_ex (\<lambda>c. c_id c = cid) (collections d)"

subsection \<open>Collection\<close>

definition Collection_getById :: "db \<Rightarrow> string \<Rightarrow> error + CollectionRow" where
  "Collection_getById d cid = select_get (\<lambda>c. c_id c = cid) (collections d)"

definition Collection_getByMainGuildId :: "db \<Rightarrow> string \<Rightarrow> error + CollectionRow" where
  "Collection_getByMainGuildId d g =
     (case select_get (\<lambda>c. c_mainGuildId c = g) (collections d) of
        Inl e \<Rightarrow> Inl e
      | Inr row \<Rightarrow> Collection_getById d (c_id row))"

text \<open>
  \<open>Collection.remove\<close>: four child tables are emptied of the collection's rows, then the
  collection row is deleted, all inside \<open>db.transaction\<close>. The connection runs with
  \<open>foreign_keys = ON\<close> and every child table, \<open>invites\<close> included, declares
  \<open>FOREIGN KEY (collectionId) REFERENCES collections(_id)\<close> with no delete action, so
  the last \<open>DELETE\<close> fails while a row of \<open>invites\<close> still references the collection.
  A throw inside the transaction rolls everything back: the caller keeps the store it had.
\<close>

definition Collection_remove :: "db \<Rightarrow> string \<Rightarrow> error + db" where
  "Collection_remove d cid =
     (let d1 = d\<lparr>auditLogs := filter (\<lambda>r. a_collectionId r \<noteq> cid) (auditLogs d)\<rparr>;
          d2 = d1\<lparr>moderators := filter (\<lambda>r. m_collectionId r \<noteq> cid) (moderators d1)\<rparr>;
          d3 = d2\<lparr>bans := filter (\<lambda>r. b_collectionId r \<noteq> cid) (bans d2)\<rparr>;
          d4 = d3\<lparr>servers := filter (\<lambda>r. s_collectionId r \<noteq> cid) (servers d3)\<rparr>
      in if \<not> collection_exists d4 cid then Inl RecordNotFoundError
         else if list_ex (\<lambda>r. i_collectionId r = cid) (invites d4) then Inl SqliteConstraintError
         else Inr (d4\<lparr>collections := filter (\<lambda>c. c_id c \<noteq> cid) (collections d4)\<rparr>))"

subsection \<open>Server (a member of a collection)\<close>

record ServerAddInput =
  sa_guildId :: string
  sa_collectionId :: string
  sa_addedBy :: string
  sa_loggingChannelId :: "string option"
  sa_syncOnJoin :: "bool option"
  sa_enabled :: "bool option"

definition Server_getById :: "db \<Rightarrow> string \<Rightarrow> error + ServerRow" where
  "Server_getById d sid = select_get (\<lambda>r. s_id r = sid) (servers d)"

text \<open>
  \<open>INSERT INTO servers\<close> under the primary key on \<open>_id\<close>, the unique index on
  \<open>(collectionId, guildId)\<close> and the foreign key to \<open>collections\<close>.
\<close>

definition Server_add :: "db \<Rightarrow> string \<Rightarrow> timestamp \<Rightarrow> ServerAddInput \<Rightarrow> error + db \<times> ServerRow" where
  "Server_add d newId now inp =
     (if list_ex (\<lambda>r. s_id r = newId) (servers d) then Inl SqliteConstraintError
      else if list_ex (\<lambda>r. s_collectionId r = sa_collectionId inp \<and> s_guildId r = sa_guildId inp)
                (servers d) then Inl SqliteConstraintError
      else if \<not> collection_exists d (sa_collectionId inp) then Inl SqliteConstraintError
      else
        let row = \<lparr>s_id = newId, s_guildId = sa_guildId inp, s_collectionId = sa_collectionId inp,
                   s_addedAt = now, s_addedBy = sa_addedBy inp,
                   s_loggingChannelId = sa_loggingChannelId inp,
                   s_syncOnJoin = (case sa_syncOnJoin inp of None \<Rightarrow> True | Some v \<Rightarrow> v),
                   s_enabled = (case sa_enabled inp of None \<Rightarrow> True | Some v \<Rightarrow> v)\<rparr>;
            d' = d\<lparr>servers := servers d @ [row]\<rparr>
        in (case Server_getById d' newId of Inl e \<Rightarrow> Inl e | Inr r \<Rightarrow> Inr (d', r)))"

definition Server_listByCollection :: "db \<Rightarrow> string \<Rightarrow> ServerRow list" where
  "Server_listByCollection d cid =
     order_by_desc s_addedAt (filter (\<lambda>r. s_collectionId r = cid) (servers d))"

definition Server_getByGuildId :: "db \<Rightarrow> string \<Rightarrow> error + ServerRow" where
  "Server_getByGuildId d g =
     (case select_get (\<lambda>r. s_guildId r = g \<and> s_enabled r) (servers d) of
        Inl e \<Rightarrow> Inl e
      | Inr row \<Rightarrow> Server_getById d (s_id row))"

subsection \<open>Moderator\<close>

definition Moderator_listByCollection :: "db \<Rightarrow> string \<Rightarrow> ModeratorRow list" where
  "Moderator_listByCollection d cid =
     take 200 (order_by_desc m_grantedAt (filter (\<lambda>r. m_collectionId r = cid) (moderators d)))"

subsection \<open>Ban\<close>

record BanCreateInput =
  bi_collectionId :: string
  bi_userId :: string
  bi_moderatorId :: string
  bi_moderatorGuildId :: string
  bi_expiresAt :: "timestamp option"
  bi_reason :: "string option"
  bi_userFacingReason :: "string option"
  bi_privatiseReason :: "bool option"
  bi_moderatorsInvolved :: "string list option"
  bi_evidence :: "EvidenceEntry list option"
  bi_active :: "bool option"
  bi_appliedServersRecent :: "AppliedServerRunEntry list option"
  bi_appliedServersHistory :: "AppliedServerRunEntry list option"
  bi_meta :: "BanMeta option"

text \<open>The nullish coalescing \<open>a ?? b\<close> on an optional field.\<close>

definition orElse :: "'a option \<Rightarrow> 'a \<Rightarrow> 'a" where
  "orElse v dflt = (case v of None \<Rightarrow> dflt | Some x \<Rightarrow> x)"

definition Ban_getById :: "db \<Rightarrow> string \<Rightarrow> error + BanRow" where
  "Ban_getById d bid = select_get (\<lambda>r. b_id r = bid) (bans d)"

definition Ban_create :: "db \<Rightarrow> string \<Rightarrow> timestamp \<Rightarrow> BanCreateInput \<Rightarrow> error + db \<times> BanRow" where
  "Ban_create d newId now inp =
     (let evidence = orElse (bi_evidence inp) []
      in if length evidence > 5 then Inl (PlainError ''evidence max 5 entries'')
         else if list_ex (\<lambda>r. b_id r = newId) (bans d) then Inl SqliteConstraintError
         else if \<not> collection_exists d (bi_collectionId inp) then Inl SqliteConstraintError
         else
           let row = \<lparr>b_id = newId,
                      b_collectionId = bi_collectionId inp,
                      b_userId = bi_userId inp,
                      b_moderatorId = bi_moderatorId inp,
                      b_moderatorGuildId = bi_moderatorGuildId inp,
                      b_timestamp = now,
                      b_expiresAt = bi_expiresAt inp,
                      b_reason = bi_reason inp,
                      b_userFacingReason =
                        (case bi_userFacingReason inp of Some u \<Rightarrow> Some u | None \<Rightarrow> bi_reason inp),
                      b_privatiseReason = orElse (bi_privatiseReason inp) True,
                      b_moderatorsInvolved = orElse (bi_moderatorsInvolved inp) [],
                      b_evidence = evidence,
                      b_active = orElse (bi_active inp) True,
                      b_appliedServersRecent = orElse (bi_appliedServersRecent inp) [],
                      b_appliedServersHistory = orElse (bi_appliedServersHistory inp) [],
                      b_meta = orElse (bi_meta inp) \<lparr>lastRunId = None, runs = Some 1\<rparr>\<rparr>;
               d' = d\<lparr>bans := bans d @ [row]\<rparr>
           in (case Ban_getById d' newId of Inl e \<Rightarrow> Inl e | Inr r \<Rightarrow> Inr (d', r)))"

text \<open>
  The two bounded queries: \<open>ORDER BY timestamp DESC LIMIT 1000\<close> for a collection and
  \<open>LIMIT 500\<close> for a user.
\<close>

definition Ban_listByCollection :: "db \<Rightarrow> string \<Rightarrow> bool \<Rightarrow> BanRow list" where
  "Ban_listByCollection d cid onlyActive =
     (if onlyActive
      then take 1000 (order_by_desc b_timestamp
             (filter (\<lambda>r. b_collectionId r = cid \<and> b_active r) (bans d)))
      else take 1000 (order_by_desc b_timestamp
             (filter (\<lambda>r. b_collectionId r = cid) (bans d))))"

definition Ban_findByUserId :: "db \<Rightarrow> string \<Rightarrow> bool \<Rightarrow> BanRow list" where
  "Ban_findByUserId d uid onlyActive =
     (if onlyActive
      then take 500 (order_by_desc b_timestamp
             (filter (\<lambda>r. b_userId r = uid \<and> b_active r) (bans d)))
      else take 500 (order_by_desc b_timestamp
             (filter (\<lambda>r. b_userId r = uid) (bans d))))"

text \<open>
  \<open>Ban.save\<close> writes every column but \<open>_id\<close> and \<open>timestamp\<close> from the object into
  the row of its id. No row changed is \<open>RecordNotFoundError\<close>; a written
  \<open>collectionId\<close> must reference a collection.
\<close>

definition Ban_save :: "db \<Rightarrow> BanRow \<Rightarrow> error + db" where
  "Ban_save d ban =
     (if \<not> list_ex (\<lambda>r. b_id r = b_id ban) (bans d) then Inl RecordNotFoundError
      else if \<not> collection_exists d (b_collectionId ban) then Inl SqliteConstraintError
      else Inr (d\<lparr>bans := map (\<lambda>r. if b_id r = b_id ban
                                     then ban\<lparr>b_timestamp := b_timestamp r\<rparr> else r) (bans d)\<rparr>))"

definition Ban_revoke :: "db \<Rightarrow> BanRow \<Rightarrow> error + db" where
  "Ban_revoke d ban = Ban_save d (ban\<lparr>b_active := False\<rparr>)"

subsection \<open>AuditLog\<close>

record AuditLogCreateInput =
  ai_collectionId :: string
  ai_action :: string
  ai_performedBy :: string
  ai_details :: "json option"

definition AuditLog_getById :: "db \<Rightarrow> string \<Rightarrow> error + AuditLogRow" where
  "AuditLog_getById d aid = select_get (\<lambda>r. a_id r = aid) (auditLogs d)"

definition AuditLog_create :: "db \<Rightarrow> string \<Rightarrow> timestamp \<Rightarrow> AuditLogCreateInput \<Rightarrow> error + db \<times> AuditLogRow" where
  "AuditLog_create d newId now inp =
     (if list_ex (\<lambda>r. a_id r = newId) (auditLogs d) then Inl SqliteConstraintError
      else if \<not> collection_exists d (ai_collectionId inp) then Inl SqliteConstraintError
      else
        let row = \<lparr>a_id = newId, a_collectionId = ai_collectionId inp, a_action = ai_action inp,
                   a_performedBy = ai_performedBy inp, a_performedAt = now,
                   a_details = orElse (ai_details inp) (JObj [])\<rparr>;
            d' = d\<lparr>auditLogs := auditLogs d @ [row]\<rparr>
        in (case AuditLog_getById d' newId of Inl e \<Rightarrow> Inl e | Inr r \<Rightarrow> Inr (d', r)))"

text \<open>
  \<open>logAction\<close> (src/lib/utils.ts). The whole body is inside \<open>try\<close>; the handler logs to
  the console and returns \<open>null\<close>. The notification task it starts is detached and has
  its own \<open>.catch\<close>: it neither writes to the store nor reaches the return value, and is
  modelled on its own below (\<open>sendAuditLogNotifications\<close>).
\<close>

definition logAction :: "db \<Rightarrow> string \<Rightarrow> timestamp \<Rightarrow> AuditLogCreateInput \<Rightarrow> db \<times> AuditLogRow option" where
  "logAction d newId now params =
     (case AuditLog_create d newId now params of
        Inr (d', auditLog) \<Rightarrow> (d', Some auditLog)
      | Inl e \<Rightarrow> (d, None))"

subsection \<open>Invite\<close>


definition Invite_getById :: "db \<Rightarrow> string \<Rightarrow> error + InviteRow" where
  "Invite_getById d iid = select_get (\<lambda>r. i_id r = iid) (invites d)"



definition Invite_isExpired :: "timestamp \<Rightarrow> InviteRow \<Rightarrow> bool" where
  "Invite_isExpired now invite = (i_expiresAt invite < now)"

definition Invite_save :: "db \<Rightarrow> InviteRow \<Rightarrow> error + db" where
  "Invite_save d invite =
     (if \<not> list_ex (\<lambda>r. i_id r = i_id invite) (invites d) then Inl RecordNotFoundError
      else Inr (d\<lparr>invites := map (\<lambda>r. if i_id r = i_id invite
                     then r\<lparr>i_status := i_status invite, i_respondedAt := i_respondedAt invite\<rparr>
                     else r) (invites d)\<rparr>))"

definition Invite_accept :: "db \<Rightarrow> timestamp \<Rightarrow> InviteRow \<Rightarrow> error + db" where
  "Invite_accept d now invite = Invite_save d (invite\<lparr>i_status := Accepted, i_respondedAt := Some now\<rparr>)"

section \<open>The chat platform\<close>

text \<open>
  The platform is outside the program: each remote primitive is a function of the
  platform value that says, for its arguments, whether the call returns or throws.
  \<open>applyBan g u\<close> stands for \<open>guilds.fetch(g)\<close> followed by \<open>guild.members.ban(u)\<close>,
  \<open>removeBan g u\<close> for the fetch followed by \<open>guild.members.unban(u)\<close>; \<open>Some msg\<close>
  is a throw with that message. The calls made are collected in a trace.
  \<open>channelSend g ch\<close> is the delivery to a member's logging channel (\<open>NoTextChannel\<close>:
  the channel is missing or not a text channel, nothing is sent and nothing thrown);
  \<open>mainLogSend g\<close> is the delivery to the channel named \<open>shareban-logs\<close> of the owning
  guild; \<open>ownerDmOk g\<close> and \<open>dmUserOk u\<close> say whether a direct message to the guild's
  owner, or to a user, is delivered; \<open>adminRoleMembers g\<close> lists, for each administrator
  role by descending position, its members that are not bots (\<open>None\<close>: the fetch threw).
\<close>

datatype send_outcome = Delivered | NoTextChannel | SendThrew

datatype main_log_outcome = MainLogDelivered | MainLogMissing | MainLogThrew

record platform =
  applyBan :: "string \<Rightarrow> string \<Rightarrow> string option"
  removeBan :: "string \<Rightarrow> string \<Rightarrow> string option"
  dmUserOk :: "string \<Rightarrow> bool"
  guildKnown :: "string \<Rightarrow> bool"
  clientReady :: bool
  channelSend :: "string \<Rightarrow> string \<Rightarrow> send_outcome"
  mainLogSend :: "string \<Rightarrow> main_log_outcome"
  ownerDmOk :: "string \<Rightarrow> bool"
  adminRoleMembers :: "string \<Rightarrow> string list list option"

datatype platform_call =
    BanCall string string
  | UnbanCall string string
  | DmCall string

text \<open>
  A JavaScript \<open>Set\<close> of strings, as the list of its elements in insertion order:
  \<open>add\<close> appends an element that is not there yet.
\<close>

definition Set_add :: "string list \<Rightarrow> string \<Rightarrow> string list" where
  "Set_add elems x = (if x \<in> set elems then elems else elems @ [x])"

definition new_Set :: "string list \<Rightarrow> string list" where
  "new_Set xs = foldl Set_add [] xs"

section \<open>/shareban (src/commands/shareban.ts)\<close>

record ServerInfo =
  si_guildId :: string
  si_isMainServer :: bool

definition buildServerInfoList :: "db \<Rightarrow> CollectionRow \<Rightarrow> ServerInfo list" where
  "buildServerInfoList d collection =
     (let linkedServers = filter s_enabled (Server_listByCollection d (c_id collection));
          mainServerInList = list_ex (\<lambda>s. s_guildId s = c_mainGuildId collection) linkedServers
      in (if \<not> mainServerInList
          then [\<lparr>si_guildId = c_mainGuildId collection, si_isMainServer = True\<rparr>] else [])
         @ map (\<lambda>server. \<lparr>si_guildId = s_guildId server,
                           si_isMainServer = (s_guildId server = c_mainGuildId collection)\<rparr>)
             linkedServers)"

record BanConfiguration =
  cfg_targetUser :: string
  cfg_collectionId :: string
  cfg_selectedServerGuildIds :: "string list"
  cfg_reason :: string
  cfg_userFacingReason :: string
  cfg_privatiseReason :: bool
  cfg_moderatorsInvolved :: "string list"
  cfg_evidence :: "string list"
  cfg_dmUser :: bool

record ShareBanInteraction =
  sb_guild :: "string option"
  sb_guildOwnerId :: string
  sb_executorId :: string
  sb_memberRoles :: "string list"
  sb_targetUser :: string

datatype ShareBanReply =
    ServerOnly
  | NotInCollection
  | CollectionNotFound
  | NotModerator
  | NoEnabledServers
  | AlreadyBanned string
  | ConfirmDisabled
  | HandlerThrew error

definition isUserModerator :: "db \<Rightarrow> string \<Rightarrow> string list \<Rightarrow> string \<Rightarrow> bool" where
  "isUserModerator d memberId memberRoles cid =
     list_ex (\<lambda>m. (m_type m = UserMod \<and> m_value m = memberId)
                 \<or> (m_type m = RoleMod \<and> m_value m \<in> set memberRoles))
       (Moderator_listByCollection d cid)"

text \<open>
  The collection a guild acts for: the one it owns, else the one its enabled member row
  points to.
\<close>

definition resolveCollection :: "db \<Rightarrow> string \<Rightarrow> ShareBanReply + CollectionRow" where
  "resolveCollection d g =
     (case Collection_getByMainGuildId d g of
        Inr collection \<Rightarrow> Inr collection
      | Inl _ \<Rightarrow>
          (case Server_getByGuildId d g of
             Inl _ \<Rightarrow> Inl NotInCollection
           | Inr server \<Rightarrow>
               if \<not> s_enabled server then Inl NotInCollection
               else (case Collection_getById d (s_collectionId server) of
                       Inl _ \<Rightarrow> Inl CollectionNotFound
                     | Inr collection \<Rightarrow> Inr collection)))"

definition ShareBan_chatInputRun ::
  "db \<Rightarrow> ShareBanInteraction \<Rightarrow> ShareBanReply + CollectionRow \<times> ServerInfo list \<times> BanConfiguration" where
  "ShareBan_chatInputRun d itx =
     (case sb_guild itx of
        None \<Rightarrow> Inl ServerOnly
      | Some g \<Rightarrow>
          (case resolveCollection d g of
             Inl reply \<Rightarrow> Inl reply
           | Inr collection \<Rightarrow>
               let isMod = isUserModerator d (sb_executorId itx) (sb_memberRoles itx) (c_id collection);
                   isOwner = (c_mainGuildId collection = g \<and> sb_guildOwnerId itx = sb_executorId itx)
               in if \<not> isMod \<and> \<not> isOwner then Inl NotModerator
                  else
                    let allServers = buildServerInfoList d collection
                    in if length allServers = 0 then Inl NoEnabledServers
                       else
                         (case find (\<lambda>b. b_userId b = sb_targetUser itx)
                                 (Ban_listByCollection d (c_id collection) True) of
                            Some existingBan \<Rightarrow> Inl (AlreadyBanned (b_id existingBan))
                          | None \<Rightarrow>
                              Inr (collection, allServers,
                                   \<lparr>cfg_targetUser = sb_targetUser itx,
                                    cfg_collectionId = c_id collection,
                                    cfg_selectedServerGuildIds = new_Set (map si_guildId allServers),
                                    cfg_reason = [],
                                    cfg_userFacingReason = [],
                                    cfg_privatiseReason = True,
                                    cfg_moderatorsInvolved = [],
                                    cfg_evidence = [],
                                    cfg_dmUser = True\<rparr>))))"

record BanResult =
  br_guildId :: string
  br_success :: bool
  br_error :: "string option"

definition banOne :: "platform \<Rightarrow> string \<Rightarrow> string \<Rightarrow> BanResult" where
  "banOne pf targetUser guildId =
     (case applyBan pf guildId targetUser of
        None \<Rightarrow> \<lparr>br_guildId = guildId, br_success = True, br_error = None\<rparr>
      | Some msg \<Rightarrow> \<lparr>br_guildId = guildId, br_success = False, br_error = Some msg\<rparr>)"

record ConfirmIds =
  id_ban :: string
  id_auditCreate :: string
  id_auditFailed :: string

definition banCreateDetails :: "BanConfiguration \<Rightarrow> BanRow \<Rightarrow> string list \<Rightarrow> json" where
  "banCreateDetails config ban successfulServerIds = JObj
     [(''banId'', JStr (b_id ban)),
      (''userId'', JStr (cfg_targetUser config)),
      (''reason'', JStr (cfg_reason config)),
      (''privatiseReason'', JBool (cfg_privatiseReason config)),
      (''serverIds'', JArr (map JStr successfulServerIds)),
      (''moderatorCount'', JNum (int (length (cfg_moderatorsInvolved config)))),
      (''evidenceCount'', JNum (int (length (cfg_evidence config)))),
      (''serverCount'', JNum (int (length successfulServerIds)))]"

definition banSyncFailedDetails :: "BanConfiguration \<Rightarrow> BanRow \<Rightarrow> BanResult list \<Rightarrow> json" where
  "banSyncFailedDetails config ban failedResults = JObj
     [(''banId'', JStr (b_id ban)),
      (''userId'', JStr (cfg_targetUser config)),
      (''serverIds'', JArr (map (\<lambda>r. JStr (br_guildId r)) failedResults)),
      (''serverCount'', JNum (int (length failedResults))),
      (''errors'', JArr (map (\<lambda>r. JObj
         [(''guildId'', JStr (br_guildId r)),
          (''error'', case br_error r of None \<Rightarrow> JNull | Some m \<Rightarrow> JStr m)]) failedResults))]"

text \<open>The audit entries of one created ban: \<open>ban.create\<close>, and \<open>ban.sync.failed\<close> when a call failed.\<close>

definition logBanCreate ::
  "db \<Rightarrow> ShareBanInteraction \<Rightarrow> BanConfiguration \<Rightarrow> BanRow \<Rightarrow> ConfirmIds \<Rightarrow> timestamp
     \<Rightarrow> BanResult list \<Rightarrow> db" where
  "logBanCreate d1 itx config ban ids now results =
     (let successfulServerIds = map br_guildId (filter br_success results);
          failedResults = filter (\<lambda>r. \<not> br_success r) results;
          d2 = fst (logAction d1 (id_auditCreate ids) now
            \<lparr>ai_collectionId = cfg_collectionId config, ai_action = ''ban.create'',
             ai_performedBy = sb_executorId itx,
             ai_details = Some (banCreateDetails config ban successfulServerIds)\<rparr>)
      in if length failedResults > 0
         then fst (logAction d2 (id_auditFailed ids) now
           \<lparr>ai_collectionId = cfg_collectionId config, ai_action = ''ban.sync.failed'',
            ai_performedBy = sb_executorId itx,
            ai_details = Some (banSyncFailedDetails config ban failedResults)\<rparr>)
         else d2)"

definition banCreateInput :: "ShareBanInteraction \<Rightarrow> string \<Rightarrow> BanConfiguration \<Rightarrow> BanCreateInput" where
  "banCreateInput itx g config =
     \<lparr>bi_collectionId = cfg_collectionId config,
      bi_userId = cfg_targetUser config,
      bi_moderatorId = sb_executorId itx,
      bi_moderatorGuildId = g,
      bi_expiresAt = None,
      bi_reason = Some (cfg_reason config),
      bi_userFacingReason =
        (if cfg_userFacingReason config = [] then None else Some (cfg_userFacingReason config)),
      bi_privatiseReason = Some (cfg_privatiseReason config),
      bi_moderatorsInvolved = Some (cfg_moderatorsInvolved config),
      bi_evidence = None,
      bi_active = None,
      bi_appliedServersRecent = None,
      bi_appliedServersHistory = None,
      bi_meta = None\<rparr>"

text \<open>
  \<open>handleConfirmBan\<close>: the direct message, one ban call per selected guild, then
  \<open>Ban.create\<close> with the fields of \<open>banCreateInput\<close>, and the audit entries. The list
  \<open>results\<close> goes to the audit details and to the reply, not to \<open>Ban.create\<close>. A throw
  of \<open>Ban.create\<close> leaves the handler after the platform calls were made.
  \<open>originalInteraction.guild!.id\<close> is a \<open>TypeError\<close> without a guild.
\<close>

definition handleConfirmBan ::
  "db \<Rightarrow> platform \<Rightarrow> ShareBanInteraction \<Rightarrow> BanConfiguration \<Rightarrow> ConfirmIds \<Rightarrow> timestamp
     \<Rightarrow> platform_call list \<times> (error + db \<times> BanRow \<times> BanResult list)" where
  "handleConfirmBan d pf itx config ids now =
     (let dm = (if cfg_dmUser config then [DmCall (cfg_targetUser config)] else []);
          results = map (banOne pf (cfg_targetUser config)) (cfg_selectedServerGuildIds config);
          calls = dm @ map (\<lambda>g. BanCall g (cfg_targetUser config)) (cfg_selectedServerGuildIds config)
      in (calls,
          (case sb_guild itx of
             None \<Rightarrow> Inl (PlainError ''TypeError'')
           | Some g \<Rightarrow>
               (case Ban_create d (id_ban ids) now (banCreateInput itx g config) of
                  Inl e \<Rightarrow> Inl e
                | Inr (d1, ban) \<Rightarrow> Inr (logBanCreate d1 itx config ban ids now results, ban, results)))))"

text \<open>
  The path of one \<open>/shareban\<close> command that ends with the confirm button:
  \<open>chatInputRun\<close>, the configuration menu (the moderator's edits are a function on the
  configuration), and \<open>handleConfirmBan\<close>. The confirm button is disabled unless
  \<open>canConfirm\<close> holds.
\<close>

definition canConfirm :: "BanConfiguration \<Rightarrow> bool" where
  "canConfirm config = (length (cfg_reason config) > 0 \<and> length (cfg_selectedServerGuildIds config) > 0)"

definition ShareBan_confirmed ::
  "db \<Rightarrow> platform \<Rightarrow> ShareBanInteraction \<Rightarrow> (BanConfiguration \<Rightarrow> BanConfiguration) \<Rightarrow> ConfirmIds
     \<Rightarrow> timestamp \<Rightarrow> db \<times> platform_call list \<times> (ShareBanReply + BanRow \<times> BanResult list)" where
  "ShareBan_confirmed d pf itx edits ids now =
     (case ShareBan_chatInputRun d itx of
        Inl reply \<Rightarrow> (d, [], Inl reply)
      | Inr (collection, allServers, config) \<Rightarrow>
          if \<not> canConfirm (edits config) then (d, [], Inl ConfirmDisabled)
          else (case handleConfirmBan d pf itx (edits config) ids now of
                  (calls, Inl e) \<Rightarrow> (d, calls, Inl (HandlerThrew e))
                | (calls, Inr (d', ban, results)) \<Rightarrow> (d', calls, Inr (ban, results))))"

section \<open>/unshareban (src/commands/unshareban.ts)\<close>

record UnbanServerResult =
  ur_guildId :: string
  ur_success :: bool
  ur_error :: "string option"

record UnbanState =
  us_db :: db
  us_calls :: "platform_call list"
  us_results :: "(string \<times> UnbanServerResult list) list"
  us_totalUnbannedServers :: nat
  us_totalFailedServers :: nat

definition unbanOne :: "platform \<Rightarrow> string \<Rightarrow> string \<Rightarrow> UnbanServerResult" where
  "unbanOne pf targetUserId guildId =
     (case removeBan pf guildId targetUserId of
        None \<Rightarrow> \<lparr>ur_guildId = guildId, ur_success = True, ur_error = None\<rparr>
      | Some msg \<Rightarrow> \<lparr>ur_guildId = guildId, ur_success = False, ur_error = Some msg\<rparr>)"

definition banRevokeDetails :: "BanRow \<Rightarrow> string \<Rightarrow> string list \<Rightarrow> json" where
  "banRevokeDetails ban targetUserId successfulServerIds = JObj
     [(''banId'', JStr (b_id ban)),
      (''userId'', JStr targetUserId),
      (''serverIds'', JArr (map JStr successfulServerIds)),
      (''serverCount'', JNum (int (length successfulServerIds)))]"

definition banRevokeFailedDetails :: "BanRow \<Rightarrow> string \<Rightarrow> UnbanServerResult list \<Rightarrow> json" where
  "banRevokeFailedDetails ban targetUserId failedResults = JObj
     [(''banId'', JStr (b_id ban)),
      (''userId'', JStr targetUserId),
      (''serverIds'', JArr (map (\<lambda>r. JStr (ur_guildId r)) failedResults)),
      (''serverCount'', JNum (int (length failedResults))),
      (''errors'', JArr (map (\<lambda>r. JObj
         [(''guildId'', JStr (ur_guildId r)),
          (''error'', case ur_error r of None \<Rightarrow> JNull | Some m \<Rightarrow> JStr m)]) failedResults))]"

text \<open>The guilds one ban is lifted in: the main guild, then every row of \<open>servers\<close>.\<close>

definition unbanGuildIds :: "db \<Rightarrow> CollectionRow \<Rightarrow> string list" where
  "unbanGuildIds d collection =
     new_Set (c_mainGuildId collection # map s_guildId (Server_listByCollection d (c_id collection)))"

text \<open>The audit entries of one lifted ban: \<open>ban.revoke\<close>, and \<open>ban.revoke.failed\<close> when a call failed.\<close>

definition logRevoke ::
  "db \<Rightarrow> CollectionRow \<Rightarrow> BanRow \<Rightarrow> string \<Rightarrow> string \<Rightarrow> string \<times> string \<Rightarrow> timestamp
     \<Rightarrow> UnbanServerResult list \<Rightarrow> db" where
  "logRevoke d1 collection ban targetUserId executorId ids now serverResults =
     (let successfulServerIds = map ur_guildId (filter ur_success serverResults);
          failedResults = filter (\<lambda>r. \<not> ur_success r) serverResults;
          d2 = fst (logAction d1 (fst ids) now
            \<lparr>ai_collectionId = c_id collection, ai_action = ''ban.revoke'',
             ai_performedBy = executorId,
             ai_details = Some (banRevokeDetails ban targetUserId successfulServerIds)\<rparr>)
      in if length failedResults > 0
         then fst (logAction d2 (snd ids) now
           \<lparr>ai_collectionId = c_id collection, ai_action = ''ban.revoke.failed'',
            ai_performedBy = executorId,
            ai_details = Some (banRevokeFailedDetails ban targetUserId failedResults)\<rparr>)
         else d2)"

text \<open>
  One round of the loop over the bans. \<open>auditIds ban\<close> are the two identifiers that
  \<open>newId()\<close> returns while this ban is processed. A throw of \<open>BanCollection.getById\<close> or
  of \<open>ban.save()\<close> is caught by the round's own \<open>try\<close> and ends the round.
\<close>

definition executeUnban_step ::
  "platform \<Rightarrow> string \<Rightarrow> string \<Rightarrow> (BanRow \<Rightarrow> string \<times> string) \<Rightarrow> timestamp
     \<Rightarrow> UnbanState \<Rightarrow> BanRow \<Rightarrow> UnbanState" where
  "executeUnban_step pf targetUserId executorId auditIds now st ban =
     (case Collection_getById (us_db st) (b_collectionId ban) of
        Inl _ \<Rightarrow> st
      | Inr collection \<Rightarrow>
          let uniqueGuildIds = unbanGuildIds (us_db st) collection;
              serverResults = map (unbanOne pf targetUserId) uniqueGuildIds;
              st1 = st\<lparr>us_calls := us_calls st @ map (\<lambda>g. UnbanCall g targetUserId) uniqueGuildIds,
                       us_totalUnbannedServers :=
                         us_totalUnbannedServers st + length (filter ur_success serverResults),
                       us_totalFailedServers :=
                         us_totalFailedServers st + length (filter (\<lambda>r. \<not> ur_success r) serverResults)\<rparr>
          in (case Ban_save (us_db st1) (ban\<lparr>b_active := False\<rparr>) of
                Inl _ \<Rightarrow> st1
              | Inr d1 \<Rightarrow>
                  st1\<lparr>us_db := logRevoke d1 collection ban targetUserId executorId (auditIds ban) now
                                  serverResults,
                      us_results := us_results st1 @ [(c_name collection, serverResults)]\<rparr>))"

text \<open>
  \<open>executeUnban\<close>: the loop over the bans, then the direct message when the target
  user could be fetched.
\<close>

definition executeUnban ::
  "db \<Rightarrow> platform \<Rightarrow> string \<Rightarrow> bool \<Rightarrow> BanRow list \<Rightarrow> string \<Rightarrow> (BanRow \<Rightarrow> string \<times> string)
     \<Rightarrow> timestamp \<Rightarrow> UnbanState" where
  "executeUnban d pf targetUserId targetUserFetched banList executorId auditIds now =
     (let st = foldl (executeUnban_step pf targetUserId executorId auditIds now)
                 \<lparr>us_db = d, us_calls = [], us_results = [],
                  us_totalUnbannedServers = 0, us_totalFailedServers = 0\<rparr> banList
      in if targetUserFetched then st\<lparr>us_calls := us_calls st @ [DmCall targetUserId]\<rparr> else st)"

text \<open>The guilds of the remove-ban calls in a trace, in call order.\<close>

definition unbanAttempted :: "platform_call list \<Rightarrow> string list" where
  "unbanAttempted calls =
     concat (map (\<lambda>c. case c of UnbanCall g u \<Rightarrow> [g] | _ \<Rightarrow> []) calls)"

section \<open>Audit notifications (src/lib/utils.ts)\<close>

datatype notify_event =
    MemberChannelAttempt string string send_outcome
  | MainLogAttempt string main_log_outcome
  | OwnerDmAttempt string bool
  | AdminDmAttempt string bool

text \<open>
  The loop over the members of one administrator role: at most \<open>maxAttempts\<close> messages
  in all, the first one that is delivered ends the whole search.
\<close>

fun dmAdminMembers :: "platform \<Rightarrow> string list \<Rightarrow> nat \<Rightarrow> notify_event list \<times> nat \<times> bool" where
  "dmAdminMembers pf [] attempts = ([], attempts, False)"
| "dmAdminMembers pf (member # rest) attempts =
     (if attempts \<ge> 10 then ([], attempts, False)
      else if dmUserOk pf member then ([AdminDmAttempt member True], Suc attempts, True)
      else (case dmAdminMembers pf rest (Suc attempts) of
              (evs, n, done) \<Rightarrow> (AdminDmAttempt member False # evs, n, done)))"

fun dmAdminRoles :: "platform \<Rightarrow> string list list \<Rightarrow> nat \<Rightarrow> notify_event list" where
  "dmAdminRoles pf [] attempts = []"
| "dmAdminRoles pf (adminMembers # rest) attempts =
     (if attempts \<ge> 10 then []
      else (case dmAdminMembers pf adminMembers attempts of
              (evs, n, done) \<Rightarrow> if done then evs else evs @ dmAdminRoles pf rest n))"

definition dmCollectionAdmins :: "platform \<Rightarrow> string \<Rightarrow> notify_event list" where
  "dmCollectionAdmins pf guild =
     (if ownerDmOk pf guild then [OwnerDmAttempt guild True]
      else OwnerDmAttempt guild False #
        (case adminRoleMembers pf guild of
           None \<Rightarrow> []
         | Some adminRoles \<Rightarrow> dmAdminRoles pf adminRoles 0))"

definition sendToMainCollectionLog :: "platform \<Rightarrow> CollectionRow \<Rightarrow> notify_event list" where
  "sendToMainCollectionLog pf collection =
     (case mainLogSend pf (c_mainGuildId collection) of
        MainLogDelivered \<Rightarrow> [MainLogAttempt (c_mainGuildId collection) MainLogDelivered]
      | MainLogThrew \<Rightarrow> [MainLogAttempt (c_mainGuildId collection) MainLogThrew]
      | MainLogMissing \<Rightarrow> MainLogAttempt (c_mainGuildId collection) MainLogMissing
          # dmCollectionAdmins pf (c_mainGuildId collection))"

text \<open>
  The loop over the enabled members: a member whose \<open>loggingChannelId\<close> is neither
  \<open>null\<close> nor empty gets one delivery attempt; \<open>sentToServerChannel\<close> records whether any
  of them was delivered.
\<close>

fun notifyServers :: "platform \<Rightarrow> ServerRow list \<Rightarrow> bool \<Rightarrow> notify_event list \<times> bool" where
  "notifyServers pf [] sentToServerChannel = ([], sentToServerChannel)"
| "notifyServers pf (server # rest) sentToServerChannel =
     (case s_loggingChannelId server of
        None \<Rightarrow> notifyServers pf rest sentToServerChannel
      | Some ch \<Rightarrow>
          if ch = [] then notifyServers pf rest sentToServerChannel
          else
            let outcome = channelSend pf (s_guildId server) ch;
                (evs, sent) = notifyServers pf rest (sentToServerChannel \<or> outcome = Delivered)
            in (MemberChannelAttempt (s_guildId server) ch outcome # evs, sent))"

definition sendAuditLogNotifications :: "platform \<Rightarrow> db \<Rightarrow> AuditLogRow \<Rightarrow> notify_event list" where
  "sendAuditLogNotifications pf d auditLog =
     (if \<not> clientReady pf then []
      else (case Collection_getById d (a_collectionId auditLog) of
              Inl _ \<Rightarrow> []
            | Inr collection \<Rightarrow>
                if \<not> c_loggingEnabledAtCollectionLevel collection then []
                else
                  let memberServers = filter s_enabled (Server_listByCollection d (c_id collection));
                      (evs, sentToServerChannel) = notifyServers pf memberServers False
                  in if \<not> sentToServerChannel then evs @ sendToMainCollectionLog pf collection
                     else evs))"

definition memberChannelsReached :: "notify_event list \<Rightarrow> (string \<times> string) list" where
  "memberChannelsReached evs =
     concat (map (\<lambda>ev. case ev of MemberChannelAttempt g ch Delivered \<Rightarrow> [(g, ch)] | _ \<Rightarrow> []) evs)"

section \<open>/collection-invite\<close>







section \<open>/collection-join: accepting an invite\<close>

record JoinInteraction =
  jn_guildId :: string
  jn_userId :: string

datatype JoinReply =
    InviteNoLongerValid
  | AlreadyJoined
  | CollectionGone
  | MaxLinkedServersReached int
  | Joined string
  | JoinThrew error

record JoinIds =
  id_server :: string
  id_auditServerAdd :: string
  id_auditInviteAccept :: string

text \<open>
  \<open>acceptInvite\<close>. \<open>invite.reload()\<close>, \<open>Server.add\<close> and \<open>invite.accept()\<close> are not
  inside a \<open>try\<close>: their throw leaves the function, with the store as it is at that
  point.
\<close>

definition acceptInvite ::
  "db \<Rightarrow> JoinInteraction \<Rightarrow> InviteRow \<Rightarrow> bool \<Rightarrow> JoinIds \<Rightarrow> timestamp \<Rightarrow> db \<times> JoinReply" where
  "acceptInvite d itx invite0 syncOnJoin ids now =
     (case Invite_getById d (i_id invite0) of
        Inl e \<Rightarrow> (d, JoinThrew e)
      | Inr invite \<Rightarrow>
          if i_status invite \<noteq> Pending \<or> Invite_isExpired now invite then (d, InviteNoLongerValid)
          else (case Server_getByGuildId d (jn_guildId itx) of
                  Inr _ \<Rightarrow> (d, AlreadyJoined)
                | Inl _ \<Rightarrow>
                    (case Collection_getById d (i_collectionId invite) of
                       Inl _ \<Rightarrow> (d, CollectionGone)
                     | Inr collection \<Rightarrow>
                         let currentServers = Server_listByCollection d (c_id collection)
                         in if int (length currentServers) \<ge> c_maxLinkedServers collection
                            then (d, MaxLinkedServersReached (c_maxLinkedServers collection))
                            else (case Server_add d (id_server ids) now
                                         \<lparr>sa_guildId = jn_guildId itx,
                                          sa_collectionId = c_id collection,
                                          sa_addedBy = jn_userId itx,
                                          sa_loggingChannelId = None,
                                          sa_syncOnJoin = Some syncOnJoin,
                                          sa_enabled = None\<rparr> of
                                    Inl e \<Rightarrow> (d, JoinThrew e)
                                  | Inr (d1, server) \<Rightarrow>
                                      (case Invite_accept d1 now invite of
                                         Inl e \<Rightarrow> (d1, JoinThrew e)
                                       | Inr d2 \<Rightarrow>
                                           let d3 = fst (logAction d2 (id_auditServerAdd ids) now
                                                 \<lparr>ai_collectionId = c_id collection,
                                                  ai_action = ''server.add'',
                                                  ai_performedBy = jn_userId itx,
                                                  ai_details = Some (JObj
                                                    [(''guildId'', JStr (jn_guildId itx)),
                                                     (''serverId'', JStr (s_id server)),
                                                     (''syncOnJoin'', JBool syncOnJoin),
                                                     (''inviteId'', JStr (i_id invite))])\<rparr>);
                                               d4 = fst (logAction d3 (id_auditInviteAccept ids) now
                                                 \<lparr>ai_collectionId = c_id collection,
                                                  ai_action = ''invite.accept'',
                                                  ai_performedBy = jn_userId itx,
                                                  ai_details = Some (JObj
                                                    [(''inviteId'', JStr (i_id invite)),
                                                     (''guildId'', JStr (jn_guildId itx))])\<rparr>)
                                           in (d4, Joined (s_id server)))))))"

section \<open>/view-banshare (src/commands/view-banshare.ts)\<close>






section \<open>Observations used in the statements\<close>

text \<open>
  These are not functions of the program: they read off a store or a trace what the
  statements below talk about.
\<close>

text \<open>The run list of the stored ban \<open>bid\<close> after \<open>handleConfirmBan\<close> returned.\<close>

definition persistedRunEntries ::
  "error + db \<times> BanRow \<times> BanResult list \<Rightarrow> string \<Rightarrow> AppliedServerRunEntry list option" where
  "persistedRunEntries outcome bid =
     (case outcome of
        Inl _ \<Rightarrow> None
      | Inr (d', _, _) \<Rightarrow>
          (case Ban_getById d' bid of Inl _ \<Rightarrow> None | Inr row \<Rightarrow> Some (b_appliedServersRecent row)))"

text \<open>
  The members a notification is sent to: enabled, with a \<open>loggingChannelId\<close> that is
  neither \<open>null\<close> nor empty.
\<close>

definition loggingChannel :: "ServerRow \<Rightarrow> string" where
  "loggingChannel s = (case s_loggingChannelId s of None \<Rightarrow> [] | Some ch \<Rightarrow> ch)"

definition notificationTargets :: "db \<Rightarrow> CollectionRow \<Rightarrow> ServerRow list" where
  "notificationTargets d collection =
     filter (\<lambda>s. loggingChannel s \<noteq> [])
       (filter s_enabled (Server_listByCollection d (c_id collection)))"

definition memberChannelAttempt :: "platform \<Rightarrow> ServerRow \<Rightarrow> notify_event" where
  "memberChannelAttempt pf s =
     MemberChannelAttempt (s_guildId s) (loggingChannel s)
       (channelSend pf (s_guildId s) (loggingChannel s))"

text \<open>The active bans of a user in a collection.\<close>

definition activeBansOf :: "db \<Rightarrow> string \<Rightarrow> string \<Rightarrow> BanRow list" where
  "activeBansOf d cid uid =
     filter (\<lambda>b. b_collectionId b = cid \<and> b_userId b = uid \<and> b_active b) (bans d)"







section \<open>A small store and platform for concrete runs\<close>

text \<open>
  Collection \<open>c1\<close> is owned by guild \<open>G1\<close> and allows three linked servers. Guilds
  \<open>G2\<close> and \<open>G3\<close> are enabled members with a logging channel, guild \<open>G4\<close> is a
  soft-disabled member. User \<open>U1\<close> has an active ban, and one invite of guild
  \<open>123456789012345678\<close> is pending.
\<close>

definition demo_collection :: CollectionRow where
  "demo_collection =
     \<lparr>c_id = ''c1'', c_mainGuildId = ''G1'', c_name = ''Alpha'', c_description = None,
      c_createdAt = 1, c_createdBy = ''owner'', c_loggingEnabledAtCollectionLevel = True,
      c_onServerRemove = Retain, c_dmOnBan = False, c_analyticsEnabled = False,
      c_maxLinkedServers = 3\<rparr>"

definition demo_server :: "string \<Rightarrow> string \<Rightarrow> timestamp \<Rightarrow> string option \<Rightarrow> bool \<Rightarrow> ServerRow" where
  "demo_server sid g t ch en =
     \<lparr>s_id = sid, s_guildId = g, s_collectionId = ''c1'', s_addedAt = t, s_addedBy = ''admin'',
      s_loggingChannelId = ch, s_syncOnJoin = True, s_enabled = en\<rparr>"

definition demo_ban :: BanRow where
  "demo_ban =
     \<lparr>b_id = ''b1'', b_collectionId = ''c1'', b_userId = ''U1'', b_moderatorId = ''mod'',
      b_moderatorGuildId = ''G1'', b_timestamp = 40, b_expiresAt = None,
      b_reason = Some ''spam'', b_userFacingReason = Some ''spam'', b_privatiseReason = True,
      b_moderatorsInvolved = [], b_evidence = [], b_active = True,
      b_appliedServersRecent = [], b_appliedServersHistory = [],
      b_meta = \<lparr>lastRunId = None, runs = Some 1\<rparr>\<rparr>"

definition demo_invite :: InviteRow where
  "demo_invite =
     \<lparr>i_id = ''i1'', i_collectionId = ''c1'', i_targetGuildId = ''123456789012345678'',
      i_invitedBy = ''owner'', i_invitedAt = 100, i_expiresAt = 172800100,
      i_status = Pending, i_respondedAt = None\<rparr>"

definition demo_db :: db where
  "demo_db =
     \<lparr>collections = [demo_collection],
      servers = [demo_server ''s1'' ''G2'' 10 (Some ''ch2'') True,
                 demo_server ''s2'' ''G3'' 20 (Some ''ch3'') True,
                 demo_server ''s3'' ''G4'' 30 None False],
      bans = [demo_ban],
      moderators = [],
      auditLogs = [],
      invites = [demo_invite]\<rparr>"

text \<open>
  On this platform the ban call fails in \<open>G2\<close>, the unban call fails in \<open>G3\<close>, and
  every channel delivers.
\<close>

definition demo_pf :: platform where
  "demo_pf =
     \<lparr>applyBan = (\<lambda>g u. if g = ''G2'' then Some ''Missing Permissions'' else None),
      removeBan = (\<lambda>g u. if g = ''G3'' then Some ''Unknown Ban'' else None),
      dmUserOk = (\<lambda>u. True),
      guildKnown = (\<lambda>g. True),
      clientReady = True,
      channelSend = (\<lambda>g ch. Delivered),
      mainLogSend = (\<lambda>g. MainLogMissing),
      ownerDmOk = (\<lambda>g. False),
      adminRoleMembers = (\<lambda>g. Some [])\<rparr>"

definition demo_itx :: "string \<Rightarrow> ShareBanInteraction" where
  "demo_itx target =
     \<lparr>sb_guild = Some ''G1'', sb_guildOwnerId = ''owner'', sb_executorId = ''owner'',
      sb_memberRoles = [], sb_targetUser = target\<rparr>"

definition demo_config :: BanConfiguration where
  "demo_config =
     \<lparr>cfg_targetUser = ''U2'', cfg_collectionId = ''c1'',
      cfg_selectedServerGuildIds = [''G1'', ''G2''], cfg_reason = ''raid'',
      cfg_userFacingReason = [], cfg_privatiseReason = True, cfg_moderatorsInvolved = [],
      cfg_evidence = [], cfg_dmUser = True\<rparr>"

definition demo_ids :: ConfirmIds where
  "demo_ids = \<lparr>id_ban = ''b2'', id_auditCreate = ''a1'', id_auditFailed = ''a2''\<rparr>"

definition demo_auditIds :: "BanRow \<Rightarrow> string \<times> string" where
  "demo_auditIds ban = (''a1'', ''a2'')"

definition demo_audit :: AuditLogRow where
  "demo_audit =
     \<lparr>a_id = ''a0'', a_collectionId = ''c1'', a_action = ''ban.create'',
      a_performedBy = ''owner'', a_performedAt = 50, a_details = JObj []\<rparr>"

text \<open>
  A collection with many bans: the ban of \<open>U1\<close> from \<open>demo_db\<close>, then \<open>n\<close> later active
  bans of other users in the same collection, each with its own id and a later
  timestamp.
\<close>

definition crowd_ban :: "nat \<Rightarrow> BanRow" where
  "crowd_ban i = demo_ban\<lparr>b_id := CHR ''x'' # replicate i (CHR ''y''),
                          b_userId := ''V'', b_timestamp := 41 + i\<rparr>"

definition crowd :: "nat \<Rightarrow> BanRow list" where
  "crowd n = map crowd_ban [0..<n]"

definition crowded_db :: db where
  "crowded_db = demo_db\<lparr>bans := demo_ban # crowd 1000\<rparr>"

definition demo_edits :: "BanConfiguration \<Rightarrow> BanConfiguration" where
  "demo_edits config = config\<lparr>cfg_reason := ''again''\<rparr>"














section \<open>Evidence validator: blocklist precedence\<close>

lemma sig_every_drop: "sig_every buf sig index \<longleftrightarrow> prefix sig (drop index buf)"
proof (induction sig arbitrary: index)
  case Nil
  show ?case by simp
next
  case (Cons b rest)
  show ?case
  proof (cases "index < length buf")
    case True
    then have "drop index buf = buf ! index # drop (Suc index) buf"
      by (simp add: Cons_nth_drop_Suc)
    with True Cons.IH [of "Suc index"] show ?thesis by auto
  next
    case False
    then show ?thesis by simp
  qed
qed

lemma checkMagicBytes_prefix:
  "checkMagicBytes buf signatures \<longleftrightarrow> (\<exists>sig \<in> set signatures. prefix sig buf)"
proof -
  have "(if length buf < length sig then False else sig_every buf sig 0) \<longleftrightarrow> prefix sig buf"
    for sig
    using prefix_length_le [of sig buf] by (auto simp: sig_every_drop)
  then show ?thesis by (simp add: checkMagicBytes_def list_ex_iff)
qed

text \<open>
  C5. Every buffer that starts with one of the blocklisted signatures (Windows PE, ELF,
  Mach-O 32/64, ZIP) is rejected by \<open>isAllowedFile\<close>, whatever else holds of it: the
  blocklist test runs first, so neither an allowlisted signature nor the plain-text
  fallback on the first 100 bytes can admit it.
\<close>

theorem blocked_prefix_rejected:
  assumes "sig \<in> set BLOCKED_MAGIC_BYTES" and "prefix sig buf"
  shows "\<not> isAllowedFile buf"
proof -
  from assms have "isBlockedFile buf"
    by (auto simp: isBlockedFile_def list_ex_iff checkMagicBytes_prefix)
  then show ?thesis by (simp add: isAllowedFile_def)
qed

text \<open>
  The bytes of the text \<open>MZ ok\<close> are all printable, so the plain-text fallback alone
  would admit them; the Windows PE signature \<open>4d 5a\<close> in front rejects the buffer.
\<close>

theorem blocked_prefix_rejected_witness:
  "[0x4d, 0x5a] \<in> set BLOCKED_MAGIC_BYTES
   \<and> prefix [0x4d, 0x5a] [0x4d, 0x5a, 0x20, 0x6f, 0x6b :: byte]
   \<and> list_all isPlainTextByte (take 100 [0x4d, 0x5a, 0x20, 0x6f, 0x6b])
   \<and> \<not> isAllowedFile [0x4d, 0x5a, 0x20, 0x6f, 0x6b]"
proof -
  have m: "[0x4d, 0x5a] \<in> set BLOCKED_MAGIC_BYTES"
    by (simp add: BLOCKED_MAGIC_BYTES_def)
  have p: "prefix [0x4d, 0x5a] [0x4d, 0x5a, 0x20, 0x6f, 0x6b :: byte]"
    by simp
  have t: "list_all isPlainTextByte (take 100 [0x4d, 0x5a, 0x20, 0x6f, 0x6b])"
    by (simp add: isPlainTextByte_def)
  from blocked_prefix_rejected [OF m p] m p t show ?thesis by simp
qed

section \<open>Revocation keeps the ban row\<close>

lemma logAction_tables:
  "collections (fst (logAction d i n p)) = collections d"
  "servers (fst (logAction d i n p)) = servers d"
  "bans (fst (logAction d i n p)) = bans d"
  "moderators (fst (logAction d i n p)) = moderators d"
  "invites (fst (logAction d i n p)) = invites d"
  by (auto simp: logAction_def AuditLog_create_def Let_def split: sum.splits if_splits)

lemma select_get_Inr: "select_get p rows = Inr r \<longleftrightarrow> find p rows = Some r"
  by (simp add: select_get_def split: option.splits)

lemma select_get_Inl: "select_get p rows = Inl e \<longleftrightarrow> find p rows = None \<and> e = RecordNotFoundError"
  by (auto simp: select_get_def split: option.splits)

lemma find_map_comp: "find p (map f xs) = map_option f (find (p \<circ> f) xs)"
  by (induction xs) auto

lemma Ban_save_tables:
  assumes "Ban_save d b = Inr d'"
  shows "collections d' = collections d" "servers d' = servers d"
    "map b_id (bans d') = map b_id (bans d)"
  using assms by (auto simp: Ban_save_def split: if_splits)

lemma Ban_save_getById:
  assumes "Ban_save d b = Inr d'" and "Ban_getById d bid = Inr r"
  shows "\<exists>r'. Ban_getById d' bid = Inr r' \<and> (bid = b_id b \<longrightarrow> b_active r' = b_active b)
           \<and> (bid \<noteq> b_id b \<longrightarrow> r' = r)"
proof -
  let ?f = "\<lambda>r. if b_id r = b_id b then b\<lparr>b_timestamp := b_timestamp r\<rparr> else r"
  have d': "bans d' = map ?f (bans d)"
    using assms(1) by (auto simp: Ban_save_def split: if_splits)
  have comp: "(\<lambda>r. b_id r = bid) \<circ> ?f = (\<lambda>r. b_id r = bid)"
    by (auto simp: fun_eq_iff)
  from assms(2) have "find (\<lambda>r. b_id r = bid) (bans d) = Some r"
    by (simp add: Ban_getById_def select_get_Inr)
  then have "find (\<lambda>r. b_id r = bid) (bans d') = Some (?f r)"
    by (simp add: d' find_map_comp comp)
  moreover from \<open>find (\<lambda>r. b_id r = bid) (bans d) = Some r\<close> have "b_id r = bid"
    by (auto simp: find_Some_iff)
  ultimately show ?thesis
    by (auto simp: Ban_getById_def select_get_Inr)
qed

lemma Ban_save_ok:
  assumes "Ban_getById d (b_id b) = Inr r" and "Collection_getById d (b_collectionId b) = Inr c"
  shows "\<exists>d'. Ban_save d b = Inr d'"
proof -
  from assms(1) have "list_ex (\<lambda>r. b_id r = b_id b) (bans d)"
    by (auto simp: Ban_getById_def select_get_Inr find_Some_iff list_ex_iff)
  moreover from assms(2) have "collection_exists d (b_collectionId b)"
    by (auto simp: Collection_getById_def collection_exists_def select_get_Inr find_Some_iff list_ex_iff)
  ultimately show ?thesis by (simp add: Ban_save_def)
qed


lemma logRevoke_tables:
  "collections (logRevoke d c b u ex ids now rs) = collections d"
  "servers (logRevoke d c b u ex ids now rs) = servers d"
  "bans (logRevoke d c b u ex ids now rs) = bans d"
  by (simp_all add: logRevoke_def Let_def logAction_tables)

lemma executeUnban_step_tables:
  "collections (us_db (executeUnban_step pf u ex aids now st b)) = collections (us_db st)"
  "servers (us_db (executeUnban_step pf u ex aids now st b)) = servers (us_db st)"
proof -
  have "collections (us_db (executeUnban_step pf u ex aids now st b)) = collections (us_db st)
      \<and> servers (us_db (executeUnban_step pf u ex aids now st b)) = servers (us_db st)"
  proof (cases "Collection_getById (us_db st) (b_collectionId b)")
    case (Inl e)
    then show ?thesis by (simp add: executeUnban_step_def)
  next
    case (Inr c)
    show ?thesis
    proof (cases "Ban_save (us_db st) (b\<lparr>b_active := False\<rparr>)")
      case (Inl e)
      with Inr show ?thesis by (simp add: executeUnban_step_def Let_def)
    next
      case save: (Inr d1)
      from Ban_save_tables [OF save] Inr save show ?thesis
        by (simp add: executeUnban_step_def Let_def logRevoke_tables)
    qed
  qed
  then show "collections (us_db (executeUnban_step pf u ex aids now st b)) = collections (us_db st)"
    and "servers (us_db (executeUnban_step pf u ex aids now st b)) = servers (us_db st)"
    by simp_all
qed

lemma executeUnban_step_keeps:
  assumes "Ban_getById (us_db st) bid = Inr r"
  shows "\<exists>r'. Ban_getById (us_db (executeUnban_step pf u ex aids now st b)) bid = Inr r'
           \<and> (\<not> b_active r \<longrightarrow> \<not> b_active r')"
proof (cases "Collection_getById (us_db st) (b_collectionId b)")
  case (Inl e)
  with assms show ?thesis by (simp add: executeUnban_step_def)
next
  case (Inr c)
  show ?thesis
  proof (cases "Ban_save (us_db st) (b\<lparr>b_active := False\<rparr>)")
    case (Inl e)
    with Inr assms show ?thesis by (simp add: executeUnban_step_def Let_def)
  next
    case save: (Inr d1)
    from Ban_save_getById [OF save assms] obtain r' where
      r': "Ban_getById d1 bid = Inr r'" "bid = b_id b \<longrightarrow> \<not> b_active r'" "bid \<noteq> b_id b \<longrightarrow> r' = r"
      by auto
    have "bans (us_db (executeUnban_step pf u ex aids now st b)) = bans d1"
      using Inr save by (simp add: executeUnban_step_def Let_def logRevoke_tables)
    then have "Ban_getById (us_db (executeUnban_step pf u ex aids now st b)) bid = Inr r'"
      using r'(1) by (simp add: Ban_getById_def)
    with r'(2,3) show ?thesis by auto
  qed
qed

lemma executeUnban_step_revokes:
  assumes "Ban_getById (us_db st) (b_id b) = Inr r"
      and "Collection_getById (us_db st) (b_collectionId b) = Inr c"
  shows "\<exists>r'. Ban_getById (us_db (executeUnban_step pf u ex aids now st b)) (b_id b) = Inr r'
           \<and> \<not> b_active r'"
proof -
  from Ban_save_ok [of "us_db st" "b\<lparr>b_active := False\<rparr>" r c] assms
  obtain d1 where save: "Ban_save (us_db st) (b\<lparr>b_active := False\<rparr>) = Inr d1" by auto
  from Ban_save_getById [OF save, of "b_id b" r] assms(1) obtain r' where
    r': "Ban_getById d1 (b_id b) = Inr r'" "\<not> b_active r'"
    by auto
  have "bans (us_db (executeUnban_step pf u ex aids now st b)) = bans d1"
    using assms(2) save by (simp add: executeUnban_step_def Let_def logRevoke_tables)
  then show ?thesis using r' by (simp add: Ban_getById_def)
qed

lemma executeUnban_loop_tables:
  "collections (us_db (foldl (executeUnban_step pf u ex aids now) st bs)) = collections (us_db st)"
  "servers (us_db (foldl (executeUnban_step pf u ex aids now) st bs)) = servers (us_db st)"
  by (induction bs arbitrary: st) (simp_all add: executeUnban_step_tables)

lemma executeUnban_loop_keeps:
  assumes "Ban_getById (us_db st) bid = Inr r"
  shows "\<exists>r'. Ban_getById (us_db (foldl (executeUnban_step pf u ex aids now) st bs)) bid = Inr r'
           \<and> (\<not> b_active r \<longrightarrow> \<not> b_active r')"
  using assms
proof (induction bs arbitrary: st r)
  case Nil
  then show ?case by simp
next
  case (Cons b bs)
  from executeUnban_step_keeps [OF Cons.prems, of pf u ex aids now b] obtain r1 where
    r1: "Ban_getById (us_db (executeUnban_step pf u ex aids now st b)) bid = Inr r1"
        "\<not> b_active r \<longrightarrow> \<not> b_active r1"
    by auto
  from Cons.IH [OF r1(1)] r1(2) show ?case by auto
qed

lemma Ban_revoke_keeps_row:
  assumes "Ban_getById d (b_id ban) = Inr row"
      and "Collection_getById d (b_collectionId ban) = Inr collection"
  shows "\<exists>d' row'. Ban_revoke d ban = Inr d' \<and> length (bans d') = length (bans d)
            \<and> Ban_getById d' (b_id ban) = Inr row' \<and> \<not> b_active row'"
proof -
  from Ban_save_ok [of d "ban\<lparr>b_active := False\<rparr>" row collection] assms
  obtain d' where save: "Ban_save d (ban\<lparr>b_active := False\<rparr>) = Inr d'" by auto
  from Ban_save_getById [OF save, of "b_id ban" row] assms(1) obtain row' where
    "Ban_getById d' (b_id ban) = Inr row'" "\<not> b_active row'" by auto
  moreover from Ban_save_tables(3) [OF save] have "length (bans d') = length (bans d)"
    using map_eq_imp_length_eq by blast
  ultimately show ?thesis
    using save by (auto simp: Ban_revoke_def)
qed

lemma executeUnban_revokes:
  assumes "Ban_getById d (b_id ban) = Inr row"
      and "Collection_getById d (b_collectionId ban) = Inr collection"
      and "ban \<in> set banList"
  shows "\<exists>row'. Ban_getById (us_db (executeUnban d pf u fetched banList ex aids now)) (b_id ban)
            = Inr row' \<and> \<not> b_active row'"
proof -
  from assms(3) obtain pre post where split: "banList = pre @ ban # post"
    by (auto dest: split_list)
  let ?step = "executeUnban_step pf u ex aids now"
  let ?st0 = "\<lparr>us_db = d, us_calls = [], us_results = [],
               us_totalUnbannedServers = 0, us_totalFailedServers = 0\<rparr>"
  let ?st1 = "foldl ?step ?st0 pre"
  from executeUnban_loop_keeps [of ?st0 "b_id ban" row pf u ex aids now pre] assms(1)
  obtain r1 where r1: "Ban_getById (us_db ?st1) (b_id ban) = Inr r1" by auto
  have "Collection_getById (us_db ?st1) (b_collectionId ban) = Inr collection"
    using assms(2) by (simp add: Collection_getById_def executeUnban_loop_tables)
  from executeUnban_step_revokes [OF r1 this, of pf u ex aids now] obtain r2 where
    r2: "Ban_getById (us_db (?step ?st1 ban)) (b_id ban) = Inr r2" "\<not> b_active r2" by auto
  from executeUnban_loop_keeps [OF r2(1), of pf u ex aids now post] r2(2) obtain r3 where
    "Ban_getById (us_db (foldl ?step (?step ?st1 ban) post)) (b_id ban) = Inr r3" "\<not> b_active r3"
    by auto
  then show ?thesis
    by (simp add: executeUnban_def split Let_def)
qed

text \<open>
  C6. Revoking never deletes the ban's row. For a stored ban whose collection exists,
  \<open>Ban.revoke\<close> succeeds, keeps the number of rows, and leaves the row retrievable by
  its id with \<open>active = false\<close>; and after \<open>executeUnban\<close> over any list of bans that
  contains it, the row is retrievable and inactive, whatever the platform answered to
  the remove-ban calls (the platform \<open>pf\<close> is arbitrary).
\<close>

theorem revoke_keeps_row_inactive:
  assumes "Ban_getById d (b_id ban) = Inr row"
      and "Collection_getById d (b_collectionId ban) = Inr collection"
  shows "(\<exists>d' row'. Ban_revoke d ban = Inr d' \<and> length (bans d') = length (bans d)
            \<and> Ban_getById d' (b_id ban) = Inr row' \<and> \<not> b_active row')
       \<and> (ban \<in> set banList \<longrightarrow>
            (\<exists>row'. Ban_getById (us_db (executeUnban d pf u fetched banList ex aids now)) (b_id ban)
               = Inr row' \<and> \<not> b_active row'))"
  using Ban_revoke_keeps_row [OF assms] executeUnban_revokes [OF assms] by blast

theorem revoke_keeps_row_inactive_witness:
  "Ban_getById demo_db (b_id demo_ban) = Inr demo_ban
   \<and> Collection_getById demo_db (b_collectionId demo_ban) = Inr demo_collection
   \<and> removeBan demo_pf ''G3'' ''U1'' = Some ''Unknown Ban''
   \<and> (\<exists>row'. Ban_getById
         (us_db (executeUnban demo_db demo_pf ''U1'' True [demo_ban] ''owner''
                   demo_auditIds 50)) (b_id demo_ban) = Inr row'
        \<and> \<not> b_active row')"
proof -
  have h1: "Ban_getById demo_db (b_id demo_ban) = Inr demo_ban"
    by (simp add: Ban_getById_def select_get_def demo_db_def demo_ban_def)
  have h2: "Collection_getById demo_db (b_collectionId demo_ban) = Inr demo_collection"
    by (simp add: Collection_getById_def select_get_def demo_db_def demo_ban_def
        demo_collection_def)
  have h3: "removeBan demo_pf ''G3'' ''U1'' = Some ''Unknown Ban''"
    by (simp add: demo_pf_def)
  from revoke_keeps_row_inactive [OF h1 h2, of "[demo_ban]" demo_pf "''U1''" True "''owner''"
      demo_auditIds 50] h1 h2 h3
  show ?thesis by simp
qed

section \<open>Audit persistence failures\<close>

















section \<open>Deleting a collection\<close>

lemma Collection_remove_blocked:
  assumes "collection_exists d cid" and "list_ex (\<lambda>r. i_collectionId r = cid) (invites d)"
  shows "Collection_remove d cid = Inl SqliteConstraintError"
  using assms by (simp add: Collection_remove_def collection_exists_def Let_def)

lemma Collection_remove_cascade:
  assumes "Collection_remove d cid = Inr d'"
  shows "\<not> list_ex (\<lambda>r. s_collectionId r = cid) (servers d')"
    and "\<not> list_ex (\<lambda>r. b_collectionId r = cid) (bans d')"
    and "\<not> list_ex (\<lambda>r. m_collectionId r = cid) (moderators d')"
    and "\<not> list_ex (\<lambda>r. a_collectionId r = cid) (auditLogs d')"
    and "\<not> list_ex (\<lambda>r. i_collectionId r = cid) (invites d')"
    and "\<not> collection_exists d' cid"
  using assms
  by (auto simp: Collection_remove_def collection_exists_def Let_def list_ex_iff
      split: if_splits)

text \<open>
  C3. On the store \<open>demo_db\<close>, collection \<open>c1\<close> has three members, a ban and an invite.
  \<open>Collection.remove\<close> does not delete from \<open>invites\<close>, the row of \<open>invites\<close> keeps
  referencing the collection, and the delete of the collection row fails: the call
  throws and, by the rollback, nothing at all is removed.
\<close>

theorem Collection_remove_invite_left:
  "Collection_remove demo_db ''c1'' = Inl SqliteConstraintError
   \<and> filter (\<lambda>r. i_collectionId r = ''c1'') (invites demo_db) = [demo_invite]"
  by (simp add: Collection_remove_def collection_exists_def demo_db_def demo_collection_def
      demo_invite_def Let_def)

section \<open>The ban record of /shareban\<close>

lemma find_append_fresh:
  assumes "\<not> list_ex p xs" and "p x"
  shows "find p (xs @ [x]) = Some x"
  using assms by (induction xs) auto

lemma Ban_create_row:
  assumes "\<not> list_ex (\<lambda>r. b_id r = newId) (bans d)"
      and "collection_exists d (bi_collectionId inp)"
      and "bi_evidence inp = None"
  shows "\<exists>ban. Ban_create d newId now inp = Inr (d\<lparr>bans := bans d @ [ban]\<rparr>, ban)
           \<and> b_id ban = newId
           \<and> b_active ban = orElse (bi_active inp) True
           \<and> b_appliedServersRecent ban = orElse (bi_appliedServersRecent inp) []
           \<and> b_appliedServersHistory ban = orElse (bi_appliedServersHistory inp) []
           \<and> b_userId ban = bi_userId inp
           \<and> b_collectionId ban = bi_collectionId inp"
  using assms
  by (simp add: Ban_create_def Let_def Ban_getById_def select_get_def orElse_def
      find_append_fresh)

lemma logBanCreate_bans: "bans (logBanCreate d itx config ban ids now results) = bans d"
  by (simp add: logBanCreate_def Let_def logAction_tables)

lemma failed_results_count:
  "length (filter (\<lambda>r. \<not> br_success r) (map (banOne pf u) gs))
     = length (filter (\<lambda>g. applyBan pf g u \<noteq> None) gs)"
  by (induction gs) (auto simp: banOne_def split: option.splits)

lemma logAction_row:
  assumes "\<not> list_ex (\<lambda>r. a_id r = newId) (auditLogs d)"
      and "collection_exists d (ai_collectionId inp)"
  shows "fst (logAction d newId now inp) =
           d\<lparr>auditLogs := auditLogs d @
              [\<lparr>a_id = newId, a_collectionId = ai_collectionId inp, a_action = ai_action inp,
                a_performedBy = ai_performedBy inp, a_performedAt = now,
                a_details = orElse (ai_details inp) (JObj [])\<rparr>]\<rparr>"
  using assms
  by (simp add: logAction_def AuditLog_create_def AuditLog_getById_def select_get_def Let_def
      find_append_fresh)

lemma logBanCreate_auditLogs:
  assumes "\<not> list_ex (\<lambda>r. a_id r = id_auditCreate ids) (auditLogs d1)"
      and "\<not> list_ex (\<lambda>r. a_id r = id_auditFailed ids) (auditLogs d1)"
      and "id_auditCreate ids \<noteq> id_auditFailed ids"
      and "collection_exists d1 (cfg_collectionId config)"
  shows "auditLogs (logBanCreate d1 itx config ban ids now results) =
           auditLogs d1 @
           [\<lparr>a_id = id_auditCreate ids, a_collectionId = cfg_collectionId config,
             a_action = ''ban.create'', a_performedBy = sb_executorId itx, a_performedAt = now,
             a_details = banCreateDetails config ban (map br_guildId (filter br_success results))\<rparr>]
           @ (if filter (\<lambda>r. \<not> br_success r) results = [] then []
              else [\<lparr>a_id = id_auditFailed ids, a_collectionId = cfg_collectionId config,
                     a_action = ''ban.sync.failed'', a_performedBy = sb_executorId itx,
                     a_performedAt = now,
                     a_details = banSyncFailedDetails config ban
                                   (filter (\<lambda>r. \<not> br_success r) results)\<rparr>])"
proof -
  let ?p1 = "\<lparr>ai_collectionId = cfg_collectionId config, ai_action = ''ban.create'',
              ai_performedBy = sb_executorId itx,
              ai_details = Some (banCreateDetails config ban
                                   (map br_guildId (filter br_success results)))\<rparr>"
  let ?d2 = "fst (logAction d1 (id_auditCreate ids) now ?p1)"
  have d2: "?d2 = d1\<lparr>auditLogs := auditLogs d1 @
      [\<lparr>a_id = id_auditCreate ids, a_collectionId = cfg_collectionId config,
        a_action = ''ban.create'', a_performedBy = sb_executorId itx, a_performedAt = now,
        a_details = banCreateDetails config ban (map br_guildId (filter br_success results))\<rparr>]\<rparr>"
    using logAction_row [of "id_auditCreate ids" d1 ?p1 now] assms(1,4)
    by (simp add: orElse_def)
  have fresh2: "\<not> list_ex (\<lambda>r. a_id r = id_auditFailed ids) (auditLogs ?d2)"
    using assms(2,3) by (simp add: d2)
  have col2: "collection_exists ?d2 (cfg_collectionId config)"
    using assms(4) by (simp add: d2 collection_exists_def)
  let ?p2 = "\<lparr>ai_collectionId = cfg_collectionId config, ai_action = ''ban.sync.failed'',
              ai_performedBy = sb_executorId itx,
              ai_details = Some (banSyncFailedDetails config ban
                                   (filter (\<lambda>r. \<not> br_success r) results))\<rparr>"
  have d3: "auditLogs (fst (logAction ?d2 (id_auditFailed ids) now ?p2)) = auditLogs ?d2 @
      [\<lparr>a_id = id_auditFailed ids, a_collectionId = cfg_collectionId config,
        a_action = ''ban.sync.failed'', a_performedBy = sb_executorId itx, a_performedAt = now,
        a_details = banSyncFailedDetails config ban (filter (\<lambda>r. \<not> br_success r) results)\<rparr>]"
    using logAction_row [of "id_auditFailed ids" ?d2 ?p2 now] fresh2 col2
    by (simp add: orElse_def)
  show ?thesis
  proof (cases "filter (\<lambda>r. \<not> br_success r) results = []")
    case True
    then show ?thesis by (simp add: logBanCreate_def Let_def d2)
  next
    case False
    then show ?thesis
      using d3 by (simp add: logBanCreate_def Let_def d2)
  qed
qed

lemma handleConfirmBan_stores_ban:
  assumes "sb_guild itx = Some g"
      and "\<not> list_ex (\<lambda>r. b_id r = id_ban ids) (bans d)"
      and "collection_exists d (cfg_collectionId config)"
  shows "\<exists>d' ban results.
           snd (handleConfirmBan d pf itx config ids now) = Inr (d', ban, results)
           \<and> d' = logBanCreate (d\<lparr>bans := bans d @ [ban]\<rparr>) itx config ban ids now results
           \<and> results = map (banOne pf (cfg_targetUser config)) (cfg_selectedServerGuildIds config)
           \<and> bans d' = bans d @ [ban]
           \<and> Ban_getById d' (id_ban ids) = Inr ban
           \<and> b_userId ban = cfg_targetUser config
           \<and> b_collectionId ban = cfg_collectionId config
           \<and> b_active ban
           \<and> b_appliedServersRecent ban = []
           \<and> b_appliedServersHistory ban = []
           \<and> length results = length (cfg_selectedServerGuildIds config)
           \<and> length (filter (\<lambda>r. \<not> br_success r) results)
               = length (filter (\<lambda>g. applyBan pf g (cfg_targetUser config) \<noteq> None)
                   (cfg_selectedServerGuildIds config))"
proof -
  let ?inp = "banCreateInput itx g config"
  have inp: "bi_collectionId ?inp = cfg_collectionId config" "bi_evidence ?inp = None"
    "bi_active ?inp = None" "bi_appliedServersRecent ?inp = None"
    "bi_appliedServersHistory ?inp = None"
    by (simp_all add: banCreateInput_def)
  with Ban_create_row [of "id_ban ids" d ?inp now] assms(2,3) obtain ban where
    ban: "Ban_create d (id_ban ids) now ?inp = Inr (d\<lparr>bans := bans d @ [ban]\<rparr>, ban)"
      "b_id ban = id_ban ids" "b_active ban" "b_appliedServersRecent ban = []"
      "b_appliedServersHistory ban = []" "b_userId ban = bi_userId ?inp"
      "b_collectionId ban = bi_collectionId ?inp"
    by (auto simp: orElse_def)
  have who: "b_userId ban = cfg_targetUser config" "b_collectionId ban = cfg_collectionId config"
    using ban(6,7) by (simp_all add: banCreateInput_def)
  let ?results = "map (banOne pf (cfg_targetUser config)) (cfg_selectedServerGuildIds config)"
  let ?d' = "logBanCreate (d\<lparr>bans := bans d @ [ban]\<rparr>) itx config ban ids now ?results"
  have out: "snd (handleConfirmBan d pf itx config ids now) = Inr (?d', ban, ?results)"
    using assms(1) ban(1) by (simp add: handleConfirmBan_def Let_def)
  have bans': "bans ?d' = bans d @ [ban]"
    by (simp add: logBanCreate_bans)
  have "find (\<lambda>r. b_id r = id_ban ids) (bans d @ [ban]) = Some ban"
    using assms(2) ban(2) by (simp add: find_append_fresh)
  then have get: "Ban_getById ?d' (id_ban ids) = Inr ban"
    by (simp add: Ban_getById_def select_get_def bans')
  from out bans' get who ban(3,4,5) failed_results_count [of pf "cfg_targetUser config"]
  show ?thesis by auto
qed

text \<open>
  C1, as the code has it. When \<open>handleConfirmBan\<close> is run for \<open>N\<close> selected guilds
  of which \<open>K\<close> ban calls fail, with a fresh ban id and an existing collection, it
  returns: one row is added to \<open>bans\<close>, that row is retrievable by the new id, it has
  \<open>active = true\<close>, and both of its run lists are empty. The \<open>N\<close> outcomes, \<open>K\<close> of
  them failures, are in the returned result list, not in the ban row. When the
  identifiers of the audit entries are free, the outcomes are also written to the audit
  log: one entry \<open>ban.create\<close> with the guilds where the call succeeded, followed, when
  \<open>K > 0\<close>, by one entry \<open>ban.sync.failed\<close> with the guilds where it failed and their
  errors, and nothing else.
\<close>

theorem confirmed_ban_has_no_run_entries:
  assumes "sb_guild itx = Some g"
      and "\<not> list_ex (\<lambda>r. b_id r = id_ban ids) (bans d)"
      and "collection_exists d (cfg_collectionId config)"
  shows "\<exists>d' ban results.
           snd (handleConfirmBan d pf itx config ids now) = Inr (d', ban, results)
           \<and> bans d' = bans d @ [ban]
           \<and> Ban_getById d' (id_ban ids) = Inr ban
           \<and> b_active ban
           \<and> b_appliedServersRecent ban = []
           \<and> b_appliedServersHistory ban = []
           \<and> results = map (banOne pf (cfg_targetUser config)) (cfg_selectedServerGuildIds config)
           \<and> length results = length (cfg_selectedServerGuildIds config)
           \<and> length (filter (\<lambda>r. \<not> br_success r) results)
               = length (filter (\<lambda>g. applyBan pf g (cfg_targetUser config) \<noteq> None)
                   (cfg_selectedServerGuildIds config))
           \<and> (\<not> list_ex (\<lambda>r. a_id r = id_auditCreate ids) (auditLogs d)
               \<and> \<not> list_ex (\<lambda>r. a_id r = id_auditFailed ids) (auditLogs d)
               \<and> id_auditCreate ids \<noteq> id_auditFailed ids
               \<longrightarrow> auditLogs d' =
                     auditLogs d @
                     [\<lparr>a_id = id_auditCreate ids, a_collectionId = cfg_collectionId config,
                       a_action = ''ban.create'', a_performedBy = sb_executorId itx,
                       a_performedAt = now,
                       a_details = banCreateDetails config ban
                                     (map br_guildId (filter br_success results))\<rparr>]
                     @ (if filter (\<lambda>r. \<not> br_success r) results = [] then []
                        else [\<lparr>a_id = id_auditFailed ids,
                               a_collectionId = cfg_collectionId config,
                               a_action = ''ban.sync.failed'',
                               a_performedBy = sb_executorId itx, a_performedAt = now,
                               a_details = banSyncFailedDetails config ban
                                             (filter (\<lambda>r. \<not> br_success r) results)\<rparr>]))"
proof -
  from handleConfirmBan_stores_ban [OF assms, of pf now] obtain d' ban results where
    r: "snd (handleConfirmBan d pf itx config ids now) = Inr (d', ban, results)"
      "d' = logBanCreate (d\<lparr>bans := bans d @ [ban]\<rparr>) itx config ban ids now results"
      "results = map (banOne pf (cfg_targetUser config)) (cfg_selectedServerGuildIds config)"
      "bans d' = bans d @ [ban]"
      "Ban_getById d' (id_ban ids) = Inr ban"
      "b_active ban" "b_appliedServersRecent ban = []" "b_appliedServersHistory ban = []"
      "length results = length (cfg_selectedServerGuildIds config)"
      "length (filter (\<lambda>r. \<not> br_success r) results)
         = length (filter (\<lambda>g. applyBan pf g (cfg_targetUser config) \<noteq> None)
             (cfg_selectedServerGuildIds config))"
    by blast
  let ?d1 = "d\<lparr>bans := bans d @ [ban]\<rparr>"
  have col: "collection_exists ?d1 (cfg_collectionId config)"
    using assms(3) by (simp add: collection_exists_def)
  have audit: "\<not> list_ex (\<lambda>r. a_id r = id_auditCreate ids) (auditLogs d)
       \<and> \<not> list_ex (\<lambda>r. a_id r = id_auditFailed ids) (auditLogs d)
       \<and> id_auditCreate ids \<noteq> id_auditFailed ids
       \<longrightarrow> auditLogs d' =
             auditLogs d @
             [\<lparr>a_id = id_auditCreate ids, a_collectionId = cfg_collectionId config,
               a_action = ''ban.create'', a_performedBy = sb_executorId itx,
               a_performedAt = now,
               a_details = banCreateDetails config ban
                             (map br_guildId (filter br_success results))\<rparr>]
             @ (if filter (\<lambda>r. \<not> br_success r) results = [] then []
                else [\<lparr>a_id = id_auditFailed ids,
                       a_collectionId = cfg_collectionId config,
                       a_action = ''ban.sync.failed'',
                       a_performedBy = sb_executorId itx, a_performedAt = now,
                       a_details = banSyncFailedDetails config ban
                                     (filter (\<lambda>r. \<not> br_success r) results)\<rparr>])"
  proof
    assume fresh: "\<not> list_ex (\<lambda>r. a_id r = id_auditCreate ids) (auditLogs d)
       \<and> \<not> list_ex (\<lambda>r. a_id r = id_auditFailed ids) (auditLogs d)
       \<and> id_auditCreate ids \<noteq> id_auditFailed ids"
    from logBanCreate_auditLogs [of ids ?d1 config itx ban now results] fresh col
    show "auditLogs d' =
             auditLogs d @
             [\<lparr>a_id = id_auditCreate ids, a_collectionId = cfg_collectionId config,
               a_action = ''ban.create'', a_performedBy = sb_executorId itx,
               a_performedAt = now,
               a_details = banCreateDetails config ban
                             (map br_guildId (filter br_success results))\<rparr>]
             @ (if filter (\<lambda>r. \<not> br_success r) results = [] then []
                else [\<lparr>a_id = id_auditFailed ids,
                       a_collectionId = cfg_collectionId config,
                       a_action = ''ban.sync.failed'',
                       a_performedBy = sb_executorId itx, a_performedAt = now,
                       a_details = banSyncFailedDetails config ban
                                     (filter (\<lambda>r. \<not> br_success r) results)\<rparr>])"
      by (simp add: r(2))
  qed
  from r(1,3-10) audit show ?thesis by blast
qed

theorem confirmed_ban_has_no_run_entries_witness:
  "sb_guild (demo_itx ''U2'') = Some ''G1''
   \<and> \<not> list_ex (\<lambda>r. b_id r = id_ban demo_ids) (bans demo_db)
   \<and> collection_exists demo_db (cfg_collectionId demo_config)
   \<and> \<not> list_ex (\<lambda>r. a_id r = id_auditCreate demo_ids) (auditLogs demo_db)
   \<and> \<not> list_ex (\<lambda>r. a_id r = id_auditFailed demo_ids) (auditLogs demo_db)
   \<and> id_auditCreate demo_ids \<noteq> id_auditFailed demo_ids
   \<and> (\<exists>d' ban results.
         snd (handleConfirmBan demo_db demo_pf (demo_itx ''U2'') demo_config demo_ids 50)
           = Inr (d', ban, results)
         \<and> b_active ban \<and> b_appliedServersRecent ban = [] \<and> length results = 2
         \<and> map a_action (auditLogs d') = [''ban.create'', ''ban.sync.failed''])"
proof -
  have h1: "sb_guild (demo_itx ''U2'') = Some ''G1''"
    by (simp add: demo_itx_def)
  have h2: "\<not> list_ex (\<lambda>r. b_id r = id_ban demo_ids) (bans demo_db)"
    by (simp add: demo_ids_def demo_db_def demo_ban_def)
  have h3: "collection_exists demo_db (cfg_collectionId demo_config)"
    by (simp add: collection_exists_def demo_db_def demo_config_def demo_collection_def)
  have h4: "\<not> list_ex (\<lambda>r. a_id r = id_auditCreate demo_ids) (auditLogs demo_db)"
    "\<not> list_ex (\<lambda>r. a_id r = id_auditFailed demo_ids) (auditLogs demo_db)"
    "id_auditCreate demo_ids \<noteq> id_auditFailed demo_ids"
    by (simp_all add: demo_ids_def demo_db_def)
  have n: "length (cfg_selectedServerGuildIds demo_config) = 2"
    by (simp add: demo_config_def)
  have k: "filter (\<lambda>r. \<not> br_success r)
      (map (banOne demo_pf (cfg_targetUser demo_config)) (cfg_selectedServerGuildIds demo_config))
      \<noteq> []"
    by (simp add: demo_config_def demo_pf_def banOne_def)
  have a: "auditLogs demo_db = []"
    by (simp add: demo_db_def)
  from confirmed_ban_has_no_run_entries [OF h1 h2 h3, of demo_pf 50] obtain d' ban results where
    r: "snd (handleConfirmBan demo_db demo_pf (demo_itx ''U2'') demo_config demo_ids 50)
          = Inr (d', ban, results)"
      "b_active ban" "b_appliedServersRecent ban = []"
      "results = map (banOne demo_pf (cfg_targetUser demo_config))
                   (cfg_selectedServerGuildIds demo_config)"
      "length results = length (cfg_selectedServerGuildIds demo_config)"
      "\<not> list_ex (\<lambda>r. a_id r = id_auditCreate demo_ids) (auditLogs demo_db)
       \<and> \<not> list_ex (\<lambda>r. a_id r = id_auditFailed demo_ids) (auditLogs demo_db)
       \<and> id_auditCreate demo_ids \<noteq> id_auditFailed demo_ids
       \<longrightarrow> auditLogs d' =
             auditLogs demo_db @
             [\<lparr>a_id = id_auditCreate demo_ids, a_collectionId = cfg_collectionId demo_config,
               a_action = ''ban.create'', a_performedBy = sb_executorId (demo_itx ''U2''),
               a_performedAt = 50,
               a_details = banCreateDetails demo_config ban
                             (map br_guildId (filter br_success results))\<rparr>]
             @ (if filter (\<lambda>r. \<not> br_success r) results = [] then []
                else [\<lparr>a_id = id_auditFailed demo_ids,
                       a_collectionId = cfg_collectionId demo_config,
                       a_action = ''ban.sync.failed'',
                       a_performedBy = sb_executorId (demo_itx ''U2''), a_performedAt = 50,
                       a_details = banSyncFailedDetails demo_config ban
                                     (filter (\<lambda>r. \<not> br_success r) results)\<rparr>])"
    by blast
  from r(6) h4 k r(4) have "map a_action (auditLogs d') = [''ban.create'', ''ban.sync.failed'']"
    by (simp add: a)
  with r(1,2,3,5) n h1 h2 h3 h4 show ?thesis by auto
qed

text \<open>
  C1 as stated fails: two guilds are selected, the call for \<open>G2\<close> fails, and the
  stored ban has no run entry at all.
\<close>

theorem confirmed_ban_run_entries_counterexample:
  "length (cfg_selectedServerGuildIds demo_config) = 2
   \<and> applyBan demo_pf ''G1'' (cfg_targetUser demo_config) = None
   \<and> applyBan demo_pf ''G2'' (cfg_targetUser demo_config) = Some ''Missing Permissions''
   \<and> persistedRunEntries
        (snd (handleConfirmBan demo_db demo_pf (demo_itx ''U2'') demo_config demo_ids 50)) ''b2''
      = Some []"
  by (simp add: persistedRunEntries_def handleConfirmBan_def banCreateInput_def
      logBanCreate_def logAction_def AuditLog_create_def AuditLog_getById_def
      banOne_def Ban_create_def Ban_getById_def select_get_def collection_exists_def
      orElse_def demo_db_def demo_collection_def demo_ban_def demo_pf_def demo_itx_def
      demo_config_def demo_ids_def Let_def)

section \<open>The notification cascade\<close>

lemma notifyServers_all:
  "notifyServers pf srvs sent =
     (map (memberChannelAttempt pf) (filter (\<lambda>s. loggingChannel s \<noteq> []) srvs),
      sent \<or> list_ex (\<lambda>s. channelSend pf (s_guildId s) (loggingChannel s) = Delivered)
                (filter (\<lambda>s. loggingChannel s \<noteq> []) srvs))"
proof (induction srvs arbitrary: sent)
  case Nil
  show ?case by simp
next
  case (Cons s srvs)
  show ?case
  proof (cases "s_loggingChannelId s")
    case None
    then show ?thesis by (simp add: Cons.IH loggingChannel_def)
  next
    case (Some ch)
    then show ?thesis
      by (cases "ch = []")
         (auto simp: Cons.IH loggingChannel_def memberChannelAttempt_def Let_def)
  qed
qed

lemma memberChannelsReached_append:
  "memberChannelsReached (xs @ ys) = memberChannelsReached xs @ memberChannelsReached ys"
  by (simp add: memberChannelsReached_def)

lemma memberChannelsReached_attempts:
  "memberChannelsReached (map (memberChannelAttempt pf) srvs) =
     map (\<lambda>s. (s_guildId s, loggingChannel s))
       (filter (\<lambda>s. channelSend pf (s_guildId s) (loggingChannel s) = Delivered) srvs)"
  by (induction srvs)
     (auto simp: memberChannelsReached_def memberChannelAttempt_def split: send_outcome.splits)

lemma memberChannelsReached_Cons_other:
  "memberChannelsReached (MainLogAttempt g o1 # evs) = memberChannelsReached evs"
  "memberChannelsReached (OwnerDmAttempt g b # evs) = memberChannelsReached evs"
  "memberChannelsReached (AdminDmAttempt m b # evs) = memberChannelsReached evs"
  "memberChannelsReached [] = []"
  by (simp_all add: memberChannelsReached_def)

lemma dmAdminMembers_reached:
  "memberChannelsReached (fst (dmAdminMembers pf ms n)) = []"
  by (induction pf ms n rule: dmAdminMembers.induct)
     (auto simp: memberChannelsReached_Cons_other split: prod.splits)

lemma dmAdminRoles_reached: "memberChannelsReached (dmAdminRoles pf roles n) = []"
proof (induction pf roles n rule: dmAdminRoles.induct)
  case (1 pf attempts)
  show ?case by (simp add: memberChannelsReached_Cons_other)
next
  case (2 pf adminMembers rest attempts)
  show ?case
  proof (cases "attempts \<ge> 10")
    case True
    then show ?thesis by (simp add: memberChannelsReached_Cons_other)
  next
    case False
    obtain evs n fin where r: "dmAdminMembers pf adminMembers attempts = (evs, n, fin)"
      by (cases "dmAdminMembers pf adminMembers attempts") auto
    from dmAdminMembers_reached [of pf adminMembers attempts] r
    have evs: "memberChannelsReached evs = []" by simp
    show ?thesis
    proof (cases fin)
      case True
      with False r evs show ?thesis by simp
    next
      case fin: False
      from "2.IH" [OF False r [symmetric] refl] fin
      have "memberChannelsReached (dmAdminRoles pf rest n) = []" by simp
      with False r evs fin show ?thesis
        by (simp add: memberChannelsReached_append)
    qed
  qed
qed

lemma sendToMainCollectionLog_reached:
  "memberChannelsReached (sendToMainCollectionLog pf collection) = []"
  by (auto simp: sendToMainCollectionLog_def dmCollectionAdmins_def
      memberChannelsReached_Cons_other dmAdminRoles_reached
      split: main_log_outcome.splits option.splits)

text \<open>
  C2, as the code has it. With the client ready and logging enabled for the collection,
  every enabled member with a configured logging channel gets its own delivery attempt,
  in query order and whatever the earlier attempts gave; the member channels that
  receive the notification are all those whose delivery succeeds. Only the fallback to the
  main guild depends on the attempts: it runs exactly when none was delivered.
\<close>

theorem member_channels_all_attempted:
  assumes "clientReady pf"
      and "Collection_getById d (a_collectionId auditLog) = Inr collection"
      and "c_loggingEnabledAtCollectionLevel collection"
  shows "sendAuditLogNotifications pf d auditLog =
           map (memberChannelAttempt pf) (notificationTargets d collection)
           @ (if memberChannelsReached
                   (map (memberChannelAttempt pf) (notificationTargets d collection)) = []
              then sendToMainCollectionLog pf collection else [])
         \<and> memberChannelsReached (sendAuditLogNotifications pf d auditLog) =
           map (\<lambda>s. (s_guildId s, loggingChannel s))
             (filter (\<lambda>s. channelSend pf (s_guildId s) (loggingChannel s) = Delivered)
                (notificationTargets d collection))"
proof -
  let ?targets = "notificationTargets d collection"
  let ?attempts = "map (memberChannelAttempt pf) ?targets"
  have sent: "(memberChannelsReached ?attempts = []) \<longleftrightarrow>
       \<not> list_ex (\<lambda>s. channelSend pf (s_guildId s) (loggingChannel s) = Delivered) ?targets"
    by (simp add: memberChannelsReached_attempts list_ex_iff filter_empty_conv)
  have ns: "notifyServers pf (filter s_enabled (Server_listByCollection d (c_id collection))) False =
      (?attempts, list_ex (\<lambda>s. channelSend pf (s_guildId s) (loggingChannel s) = Delivered) ?targets)"
    by (simp add: notifyServers_all notificationTargets_def)
  have run: "sendAuditLogNotifications pf d auditLog =
      ?attempts @ (if memberChannelsReached ?attempts = [] then sendToMainCollectionLog pf collection
                   else [])"
    using assms by (simp add: sendAuditLogNotifications_def Let_def ns sent)
  have "memberChannelsReached (sendAuditLogNotifications pf d auditLog) =
      memberChannelsReached ?attempts"
    by (simp add: run memberChannelsReached_append sendToMainCollectionLog_reached
        memberChannelsReached_Cons_other)
  then show ?thesis
    using run by (simp add: memberChannelsReached_attempts)
qed

theorem member_channels_all_attempted_witness:
  "clientReady demo_pf
   \<and> Collection_getById demo_db (a_collectionId demo_audit) = Inr demo_collection
   \<and> c_loggingEnabledAtCollectionLevel demo_collection
   \<and> memberChannelsReached (sendAuditLogNotifications demo_pf demo_db demo_audit) =
       [(''G3'', ''ch3''), (''G2'', ''ch2'')]"
proof -
  have h1: "clientReady demo_pf"
    by (simp add: demo_pf_def)
  have h2: "Collection_getById demo_db (a_collectionId demo_audit) = Inr demo_collection"
    by (simp add: Collection_getById_def select_get_def demo_db_def demo_audit_def
        demo_collection_def)
  have h3: "c_loggingEnabledAtCollectionLevel demo_collection"
    by (simp add: demo_collection_def)
  have t: "notificationTargets demo_db demo_collection =
      [demo_server ''s2'' ''G3'' 20 (Some ''ch3'') True,
       demo_server ''s1'' ''G2'' 10 (Some ''ch2'') True]"
    by (simp add: notificationTargets_def Server_listByCollection_def order_by_desc_def
        loggingChannel_def demo_db_def demo_collection_def demo_server_def)
  from member_channels_all_attempted [OF h1 h2 h3, THEN conjunct2] h1 h2 h3 show ?thesis
    by (simp add: t loggingChannel_def demo_server_def demo_pf_def)
qed

text \<open>
  C2 as stated fails: \<open>G2\<close> and \<open>G3\<close> are enabled members with a logging channel,
  both deliveries succeed, and both channels receive the notification.
\<close>

theorem member_channels_counterexample:
  "length (memberChannelsReached (sendAuditLogNotifications demo_pf demo_db demo_audit)) = 2"
  by (simp add: memberChannelsReached_def sendAuditLogNotifications_def
      Collection_getById_def select_get_def Server_listByCollection_def order_by_desc_def
      demo_pf_def demo_db_def demo_audit_def demo_collection_def demo_server_def)

section \<open>The guilds a revocation reaches\<close>

lemma unbanAttempted_append:
  "unbanAttempted (xs @ ys) = unbanAttempted xs @ unbanAttempted ys"
  by (simp add: unbanAttempted_def)

lemma unbanAttempted_unban_calls: "unbanAttempted (map (\<lambda>g. UnbanCall g u) gs) = gs"
  by (induction gs) (simp_all add: unbanAttempted_def)

lemma unbanAttempted_simps:
  "unbanAttempted [] = []" "unbanAttempted [DmCall u] = []"
  by (simp_all add: unbanAttempted_def)

lemma set_foldl_Set_add: "set (foldl Set_add acc xs) = set acc \<union> set xs"
  by (induction xs arbitrary: acc) (auto simp: Set_add_def)

lemma set_new_Set: "set (new_Set xs) = set xs"
  by (simp add: new_Set_def set_foldl_Set_add)

lemma set_Server_listByCollection:
  "set (Server_listByCollection d cid) = {s \<in> set (servers d). s_collectionId s = cid}"
  by (auto simp: Server_listByCollection_def order_by_desc_def)

lemma set_unbanGuildIds:
  "set (unbanGuildIds d collection) =
     insert (c_mainGuildId collection)
       (s_guildId ` {s \<in> set (servers d). s_collectionId s = c_id collection})"
  by (simp add: unbanGuildIds_def set_new_Set set_Server_listByCollection)

lemma executeUnban_step_calls:
  assumes "Collection_getById (us_db st) (b_collectionId b) = Inr c"
  shows "us_calls (executeUnban_step pf u ex aids now st b) =
           us_calls st @ map (\<lambda>g. UnbanCall g u) (unbanGuildIds (us_db st) c)"
  using assms
  by (cases "Ban_save (us_db st) (b\<lparr>b_active := False\<rparr>)")
     (simp_all add: executeUnban_step_def Let_def)

text \<open>
  C4, as the code has it. When one ban is revoked, the remove-ban primitive is called
  once for each guild of \<open>unbanGuildIds\<close>: the owning guild and the guild of every row of
  \<open>servers\<close> of the ban's collection, enabled or soft-disabled. The ban's own run
  lists play no part.
\<close>

theorem unban_reaches_every_member_row:
  assumes "Collection_getById d (b_collectionId ban) = Inr collection"
  shows "unbanAttempted (us_calls (executeUnban d pf u fetched [ban] ex aids now))
           = unbanGuildIds d collection
         \<and> set (unbanGuildIds d collection) =
             insert (c_mainGuildId collection)
               (s_guildId ` {s \<in> set (servers d). s_collectionId s = c_id collection})"
  using assms
  by (simp add: executeUnban_def Let_def executeUnban_step_calls unbanAttempted_append
      unbanAttempted_unban_calls unbanAttempted_simps set_unbanGuildIds)

theorem unban_reaches_every_member_row_witness:
  "Collection_getById demo_db (b_collectionId demo_ban) = Inr demo_collection
   \<and> unbanAttempted
       (us_calls (executeUnban demo_db demo_pf ''U1'' True [demo_ban] ''owner'' demo_auditIds 50))
     = [''G1'', ''G4'', ''G3'', ''G2'']"
proof -
  have h: "Collection_getById demo_db (b_collectionId demo_ban) = Inr demo_collection"
    by (simp add: Collection_getById_def select_get_def demo_db_def demo_ban_def
        demo_collection_def)
  have g: "unbanGuildIds demo_db demo_collection = [''G1'', ''G4'', ''G3'', ''G2'']"
    by (simp add: unbanGuildIds_def new_Set_def Set_add_def Server_listByCollection_def
        order_by_desc_def demo_db_def demo_collection_def demo_server_def)
  from unban_reaches_every_member_row [OF h, THEN conjunct1] h g show ?thesis by simp
qed

text \<open>
  C4 as stated fails: guild \<open>G4\<close> is a soft-disabled member of \<open>c1\<close> and is called with
  remove-ban all the same; the enabled members are \<open>G3\<close> and \<open>G2\<close>.
\<close>

theorem unban_enabled_only_counterexample:
  "unbanAttempted
     (us_calls (executeUnban demo_db demo_pf ''U1'' True [demo_ban] ''owner'' demo_auditIds 50))
     = [''G1'', ''G4'', ''G3'', ''G2'']
   \<and> map s_guildId (filter s_enabled (Server_listByCollection demo_db ''c1'')) = [''G3'', ''G2'']"
  by (simp add: unbanAttempted_def executeUnban_def executeUnban_step_def unbanGuildIds_def
      new_Set_def Set_add_def Server_listByCollection_def order_by_desc_def
      Collection_getById_def select_get_def Ban_save_def collection_exists_def
      logRevoke_def logAction_def AuditLog_create_def AuditLog_getById_def unbanOne_def
      orElse_def demo_db_def demo_collection_def demo_server_def demo_ban_def demo_pf_def
      demo_auditIds_def Let_def)

section \<open>The capacity check of an accept\<close>

lemma length_Server_listByCollection:
  "length (Server_listByCollection d cid) = length (filter (\<lambda>s. s_collectionId s = cid) (servers d))"
  by (simp add: Server_listByCollection_def order_by_desc_def)

text \<open>
  C10. An accept that passes the checks before the capacity check (the invite is stored,
  pending and unexpired, the guild is not an enabled member anywhere, the collection
  exists) fails with the capacity reply, and changes nothing, whenever the number of rows
  of \<open>servers\<close> of the collection, enabled or not, has reached \<open>maxLinkedServers\<close>.
\<close>

theorem capacity_counts_every_member_row:
  assumes "Invite_getById d (i_id invite0) = Inr invite"
      and "i_status invite = Pending"
      and "\<not> Invite_isExpired now invite"
      and "Server_getByGuildId d (jn_guildId itx) = Inl e"
      and "Collection_getById d (i_collectionId invite) = Inr collection"
      and "c_maxLinkedServers collection
             \<le> int (length (filter (\<lambda>s. s_collectionId s = c_id collection) (servers d)))"
  shows "acceptInvite d itx invite0 syncOnJoin ids now
           = (d, MaxLinkedServersReached (c_maxLinkedServers collection))"
  using assms
  by (simp add: acceptInvite_def Let_def length_Server_listByCollection)

theorem capacity_counts_every_member_row_witness:
  "Invite_getById demo_db (i_id demo_invite) = Inr demo_invite
   \<and> i_status demo_invite = Pending
   \<and> \<not> Invite_isExpired 200 demo_invite
   \<and> Server_getByGuildId demo_db ''123456789012345678'' = Inl RecordNotFoundError
   \<and> Collection_getById demo_db (i_collectionId demo_invite) = Inr demo_collection
   \<and> length (filter s_enabled (Server_listByCollection demo_db ''c1'')) = 2
   \<and> c_maxLinkedServers demo_collection = 3
   \<and> acceptInvite demo_db \<lparr>jn_guildId = ''123456789012345678'', jn_userId = ''admin2''\<rparr>
        demo_invite True
        \<lparr>id_server = ''s4'', id_auditServerAdd = ''a1'', id_auditInviteAccept = ''a2''\<rparr> 200
      = (demo_db, MaxLinkedServersReached 3)"
proof -
  let ?itx = "\<lparr>jn_guildId = ''123456789012345678'', jn_userId = ''admin2''\<rparr>"
  have h1: "Invite_getById demo_db (i_id demo_invite) = Inr demo_invite"
    by (simp add: Invite_getById_def select_get_def demo_db_def demo_invite_def)
  have h2: "i_status demo_invite = Pending"
    by (simp add: demo_invite_def)
  have h3: "\<not> Invite_isExpired 200 demo_invite"
    by (simp add: Invite_isExpired_def demo_invite_def)
  have h4: "Server_getByGuildId demo_db (jn_guildId ?itx) = Inl RecordNotFoundError"
    by (simp add: Server_getByGuildId_def select_get_def demo_db_def demo_server_def)
  have h5: "Collection_getById demo_db (i_collectionId demo_invite) = Inr demo_collection"
    by (simp add: Collection_getById_def select_get_def demo_db_def demo_invite_def
        demo_collection_def)
  have h6: "c_maxLinkedServers demo_collection
      \<le> int (length (filter (\<lambda>s. s_collectionId s = c_id demo_collection) (servers demo_db)))"
    by (simp add: demo_collection_def demo_db_def demo_server_def)
  have en: "length (filter s_enabled (Server_listByCollection demo_db ''c1'')) = 2"
    by (simp add: Server_listByCollection_def order_by_desc_def demo_db_def demo_server_def)
  have mx: "c_maxLinkedServers demo_collection = 3"
    by (simp add: demo_collection_def)
  from capacity_counts_every_member_row [OF h1 h2 h3 h4 h5 h6, of True
      "\<lparr>id_server = ''s4'', id_auditServerAdd = ''a1'', id_auditInviteAccept = ''a2''\<rparr>"]
    h1 h2 h3 h4 h5 en mx
  show ?thesis by simp
qed

section \<open>A second invite while one is pending\<close>




section \<open>The duplicate check of /shareban\<close>

lemma buildServerInfoList_nonempty: "buildServerInfoList d collection \<noteq> []"
  by (auto simp: buildServerInfoList_def Let_def list_ex_iff filter_empty_conv)

lemma Ban_listByCollection_complete:
  assumes "length (filter (\<lambda>r. b_collectionId r = cid \<and> b_active r) (bans d)) \<le> 1000"
  shows "set (Ban_listByCollection d cid True)
           = {r \<in> set (bans d). b_collectionId r = cid \<and> b_active r}"
  using assms by (auto simp: Ban_listByCollection_def order_by_desc_def)

lemma ShareBan_rejects_listed_duplicate:
  assumes "sb_guild itx = Some g"
      and "resolveCollection d g = Inr collection"
      and "isUserModerator d (sb_executorId itx) (sb_memberRoles itx) (c_id collection)
           \<or> (c_mainGuildId collection = g \<and> sb_guildOwnerId itx = sb_executorId itx)"
      and "b \<in> set (Ban_listByCollection d (c_id collection) True)"
      and "b_userId b = sb_targetUser itx"
  shows "\<exists>bid. ShareBan_confirmed d pf itx edits ids now = (d, [], Inl (AlreadyBanned bid))"
proof -
  from assms(4,5) obtain existing where
    "find (\<lambda>b. b_userId b = sb_targetUser itx) (Ban_listByCollection d (c_id collection) True)
       = Some existing"
    by (cases "find (\<lambda>b. b_userId b = sb_targetUser itx)
                 (Ban_listByCollection d (c_id collection) True)")
       (auto simp: find_None_iff)
  with assms(1-3) have "ShareBan_chatInputRun d itx = Inl (AlreadyBanned (b_id existing))"
    by (auto simp: ShareBan_chatInputRun_def Let_def buildServerInfoList_nonempty)
  then show ?thesis by (simp add: ShareBan_confirmed_def)
qed

lemma ShareBan_rejects_duplicate_within_limit:
  assumes "sb_guild itx = Some g"
      and "resolveCollection d g = Inr collection"
      and "isUserModerator d (sb_executorId itx) (sb_memberRoles itx) (c_id collection)
           \<or> (c_mainGuildId collection = g \<and> sb_guildOwnerId itx = sb_executorId itx)"
      and "b \<in> set (activeBansOf d (c_id collection) (sb_targetUser itx))"
      and "length (filter (\<lambda>r. b_collectionId r = c_id collection \<and> b_active r) (bans d)) \<le> 1000"
  shows "\<exists>bid. ShareBan_confirmed d pf itx edits ids now = (d, [], Inl (AlreadyBanned bid))"
proof -
  from assms(4) have "b \<in> {r \<in> set (bans d). b_collectionId r = c_id collection \<and> b_active r}"
    and u: "b_userId b = sb_targetUser itx"
    by (auto simp: activeBansOf_def)
  with Ban_listByCollection_complete [OF assms(5)]
  have "b \<in> set (Ban_listByCollection d (c_id collection) True)" by simp
  from ShareBan_rejects_listed_duplicate [OF assms(1-3) this u] show ?thesis .
qed

subsection \<open>More than a thousand active bans\<close>

lemma crowd_facts:
  "length (crowd n) = n"
  "\<forall>b \<in> set (crowd n). b_collectionId b = ''c1'' \<and> b_active b \<and> b_userId b = ''V''
      \<and> b_id b \<noteq> ''b2'' \<and> b_id b \<noteq> ''b1''"
  "map b_timestamp (crowd n) = map (\<lambda>i. 41 + i) [0..<n]"
  by (auto simp: crowd_def crowd_ban_def demo_ban_def)

lemma insort_key_last:
  "\<forall>x \<in> set xs. f x < f a \<Longrightarrow> insort_key f a xs = xs @ [a]"
  by (induction xs) auto

lemma sort_key_rev_strict:
  "sorted_wrt (<) (map f xs) \<Longrightarrow> sort_key f (rev xs) = xs"
proof (induction xs rule: rev_induct)
  case Nil
  show ?case by simp
next
  case (snoc x xs)
  from snoc.prems have s: "sorted_wrt (<) (map f xs)" and lt: "\<forall>y \<in> set xs. f y < f x"
    by (auto simp: sorted_wrt_append)
  from snoc.IH [OF s] insort_key_last [OF lt] show ?case by simp
qed

lemma crowd_sorted: "sorted_wrt (<) (map b_timestamp (demo_ban # crowd n))"
proof -
  have "sorted_wrt (<) (map (\<lambda>i. 41 + i) [0..<n])"
    by (simp add: sorted_wrt_map sorted_wrt_mono_rel [OF _ sorted_wrt_upt])
  then show ?thesis
    by (auto simp: crowd_facts(3) demo_ban_def)
qed

lemma crowded_tables:
  "collections crowded_db = collections demo_db"
  "servers crowded_db = servers demo_db"
  "moderators crowded_db = moderators demo_db"
  "auditLogs crowded_db = auditLogs demo_db"
  "bans crowded_db = demo_ban # crowd 1000"
  by (simp_all add: crowded_db_def)

lemma crowded_listed: "Ban_listByCollection crowded_db ''c1'' True = rev (crowd 1000)"
proof -
  have all: "filter (\<lambda>r. b_collectionId r = ''c1'' \<and> b_active r) (demo_ban # crowd 1000)
      = demo_ban # crowd 1000"
    using crowd_facts(2) [of 1000] by (auto simp: demo_ban_def filter_id_conv)
  have "Ban_listByCollection crowded_db ''c1'' True
      = take 1000 (rev (sort_key b_timestamp
          (rev (filter (\<lambda>r. b_collectionId r = ''c1'' \<and> b_active r) (demo_ban # crowd 1000)))))"
    by (simp only: Ban_listByCollection_def order_by_desc_def crowded_tables if_True)
  also have "\<dots> = take 1000 (rev (demo_ban # crowd 1000))"
    by (simp only: all sort_key_rev_strict [OF crowd_sorted])
  also have "\<dots> = rev (crowd 1000)"
    by (simp add: crowd_facts(1))
  finally show ?thesis .
qed

lemma crowded_check:
  "find (\<lambda>b. b_userId b = ''U1'') (Ban_listByCollection crowded_db ''c1'' True) = None"
  using crowd_facts(2) [of 1000] by (auto simp: crowded_listed find_None_iff)

lemma crowded_resolve: "resolveCollection crowded_db ''G1'' = Inr demo_collection"
  by (simp add: resolveCollection_def Collection_getByMainGuildId_def Collection_getById_def
      select_get_def crowded_tables demo_db_def demo_collection_def)

lemma crowded_servers:
  "buildServerInfoList crowded_db demo_collection =
     [\<lparr>si_guildId = ''G1'', si_isMainServer = True\<rparr>,
      \<lparr>si_guildId = ''G3'', si_isMainServer = False\<rparr>,
      \<lparr>si_guildId = ''G2'', si_isMainServer = False\<rparr>]"
  by (simp add: buildServerInfoList_def Server_listByCollection_def order_by_desc_def
      crowded_tables demo_db_def demo_collection_def demo_server_def Let_def)

lemma crowded_chatInputRun:
  "ShareBan_chatInputRun crowded_db (demo_itx ''U1'') =
     Inr (demo_collection,
          [\<lparr>si_guildId = ''G1'', si_isMainServer = True\<rparr>,
           \<lparr>si_guildId = ''G3'', si_isMainServer = False\<rparr>,
           \<lparr>si_guildId = ''G2'', si_isMainServer = False\<rparr>],
          \<lparr>cfg_targetUser = ''U1'', cfg_collectionId = ''c1'',
           cfg_selectedServerGuildIds = [''G1'', ''G3'', ''G2''], cfg_reason = [],
           cfg_userFacingReason = [], cfg_privatiseReason = True, cfg_moderatorsInvolved = [],
           cfg_evidence = [], cfg_dmUser = True\<rparr>)"
proof -
  have c: "c_id demo_collection = ''c1''" "c_mainGuildId demo_collection = ''G1''"
    by (simp_all add: demo_collection_def)
  show ?thesis
    by (simp add: ShareBan_chatInputRun_def crowded_resolve crowded_servers c crowded_check
        demo_itx_def new_Set_def Set_add_def Let_def)
qed

lemma crowded_active_before: "activeBansOf crowded_db ''c1'' ''U1'' = [demo_ban]"
proof -
  have "filter (\<lambda>b. b_collectionId b = ''c1'' \<and> b_userId b = ''U1'' \<and> b_active b) (crowd 1000) = []"
    using crowd_facts(2) [of 1000] by (auto simp: filter_empty_conv)
  then show ?thesis
    by (simp add: activeBansOf_def crowded_tables demo_ban_def)
qed

text \<open>
  C7 at a collection with 1001 active bans. User \<open>U1\<close> has an active ban in \<open>c1\<close>, and
  a thousand later active bans of the collection fill the result of
  \<open>Ban.listByCollection\<close>. The check does not see the ban of \<open>U1\<close>, the command goes on
  to the confirmation, and a second active ban of \<open>U1\<close> is stored.
\<close>

theorem duplicate_ban_missed_beyond_limit:
  "activeBansOf crowded_db ''c1'' ''U1'' = [demo_ban]
   \<and> \<not> isl (snd (snd (ShareBan_confirmed crowded_db demo_pf (demo_itx ''U1'') demo_edits
                        demo_ids 5000)))
   \<and> length (activeBansOf
        (fst (ShareBan_confirmed crowded_db demo_pf (demo_itx ''U1'') demo_edits demo_ids 5000))
        ''c1'' ''U1'') = 2"
proof -
  let ?config = "demo_edits
     \<lparr>cfg_targetUser = ''U1'', cfg_collectionId = ''c1'',
      cfg_selectedServerGuildIds = [''G1'', ''G3'', ''G2''], cfg_reason = [],
      cfg_userFacingReason = [], cfg_privatiseReason = True, cfg_moderatorsInvolved = [],
      cfg_evidence = [], cfg_dmUser = True\<rparr>"
  have cfg: "cfg_targetUser ?config = ''U1''" "cfg_collectionId ?config = ''c1''"
    "canConfirm ?config"
    by (simp_all add: demo_edits_def canConfirm_def)
  have g: "sb_guild (demo_itx ''U1'') = Some ''G1''"
    by (simp add: demo_itx_def)
  have fresh: "\<not> list_ex (\<lambda>r. b_id r = id_ban demo_ids) (bans crowded_db)"
    using crowd_facts(2) [of 1000]
    by (auto simp: crowded_tables list_ex_iff demo_ids_def demo_ban_def)
  have col: "collection_exists crowded_db (cfg_collectionId ?config)"
    by (simp add: cfg collection_exists_def crowded_tables demo_db_def demo_collection_def)
  from handleConfirmBan_stores_ban [OF g fresh col, of demo_pf 5000]
  obtain d' ban results where
    r: "snd (handleConfirmBan crowded_db demo_pf (demo_itx ''U1'') ?config demo_ids 5000)
          = Inr (d', ban, results)"
      "bans d' = bans crowded_db @ [ban]"
      "b_userId ban = ''U1''" "b_collectionId ban = ''c1''" "b_active ban"
    by (auto simp: cfg)
  obtain calls where
    h: "handleConfirmBan crowded_db demo_pf (demo_itx ''U1'') ?config demo_ids 5000
          = (calls, Inr (d', ban, results))"
    using r(1) by (cases "handleConfirmBan crowded_db demo_pf (demo_itx ''U1'') ?config demo_ids 5000")
      auto
  have run: "ShareBan_confirmed crowded_db demo_pf (demo_itx ''U1'') demo_edits demo_ids 5000
      = (d', calls, Inr (ban, results))"
    by (simp add: ShareBan_confirmed_def crowded_chatInputRun cfg(3) h)
  have "activeBansOf d' ''c1'' ''U1'' = activeBansOf crowded_db ''c1'' ''U1'' @ [ban]"
    using r(2-5) by (simp add: activeBansOf_def)
  then have "length (activeBansOf d' ''c1'' ''U1'') = 2"
    by (simp add: crowded_active_before)
  with crowded_active_before run show ?thesis by simp
qed

end
